theory Spec2Isabelle
  imports Main "HOL-Library.Log_Nat"
begin

section \<open>Floating-point arithmetic of the C source\<close>

text \<open>
  \<^verbatim>\<open>redshift.c\<close> computes with \<^verbatim>\<open>double\<close> and \<^verbatim>\<open>float\<close>. They are
  taken to be IEEE 754 binary64 and binary32 with round-to-nearest, ties-to-even, every
  operation rounded to the type the C conversion rules give it (no extended precision, no
  fused multiply-add). A finite value is held as the exact rational it denotes, and an
  operation is the exact operation followed by rounding to 53 or 24 significant bits.
  The exponent range is not bounded: for clock readings and temperatures of the sizes the
  program works with no operation below overflows or leaves the normal range. Zero has no
  sign here: the program never divides by a zero and compares with \<^verbatim>\<open><\<close> only, so
  it cannot tell \<open>-0\<close> from \<open>+0\<close>.
\<close>

definition pow2 :: "int \<Rightarrow> rat" where
  "pow2 k = (if 0 \<le> k then 2 ^ nat k else 1 / 2 ^ nat (- k))"

text \<open>The binary exponent of a non-zero value: \<open>pow2 (expo x) \<le> \<bar>x\<bar> < pow2 (expo x + 1)\<close>.\<close>

definition expo :: "rat \<Rightarrow> int" where
  "expo x = (case quotient_of \<bar>x\<bar> of (p, q) \<Rightarrow>
     let k = bitlen p - bitlen q in if pow2 k \<le> \<bar>x\<bar> then k else k - 1)"

text \<open>Rounding to the nearest integer, a tie going to the even one.\<close>

definition rne :: "rat \<Rightarrow> int" where
  "rne x = (let f = \<lfloor>x\<rfloor>; d = x - of_int f in
     if d < 1 / 2 then f else if 1 / 2 < d then f + 1 else if even f then f else f + 1)"

text \<open>Rounding to \<open>p\<close> significant bits.\<close>

definition fl :: "nat \<Rightarrow> rat \<Rightarrow> rat" where
  "fl p x = (if x = 0 then 0 else
     let u = pow2 (expo x - int p + 1) in of_int (rne (x / u)) * u)"

definition binary64 :: "rat \<Rightarrow> rat" where
  "binary64 x = fl 53 x"

definition binary32 :: "rat \<Rightarrow> rat" where
  "binary32 x = fl 24 x"

text \<open>
  A \<^verbatim>\<open>double\<close> that comes from outside (the solar elevation) may also be an infinity
  or a NaN; comparing a NaN with \<^verbatim>\<open><\<close> is false.
\<close>

datatype double = Finite rat | PlusInf | MinusInf | NaN

fun double_less :: "double \<Rightarrow> rat \<Rightarrow> bool" where
  "double_less (Finite x) c = (x < c)"
| "double_less MinusInf c = True"
| "double_less PlusInf c = False"
| "double_less NaN c = False"

fun double_ge :: "double \<Rightarrow> rat \<Rightarrow> bool" where
  "double_ge (Finite x) c = (c \<le> x)"
| "double_ge MinusInf c = False"
| "double_ge PlusInf c = True"
| "double_ge NaN c = False"

text \<open>
  Conversion of a \<^verbatim>\<open>double\<close> to \<^verbatim>\<open>int\<close> (32 bits): the fractional part is
  discarded; the behaviour is undefined (\<open>None\<close>) when the integral part is not an
  \<^verbatim>\<open>int\<close>.
\<close>

definition INT_MIN :: int where "INT_MIN = - 2147483648"
definition INT_MAX :: int where "INT_MAX = 2147483647"

definition double_to_int :: "rat \<Rightarrow> int option" where
  "double_to_int x = (let t = (if 0 \<le> x then \<lfloor>x\<rfloor> else \<lceil>x\<rceil>) in
     if INT_MIN \<le> t \<and> t \<le> INT_MAX then Some t else None)"


section \<open>Constants\<close>

text \<open>
  Modelled from the spec: \<^verbatim>\<open>SOLAR_CIVIL_TWILIGHT_ELEV\<close> is defined in \<^verbatim>\<open>solar.h\<close>,
  which is not among the sources; the specification gives the civil-twilight threshold
  \<open>LOW\<close> as \<open>-6.0\<close>.
\<close>

definition SOLAR_CIVIL_TWILIGHT_ELEV :: rat where
  "SOLAR_CIVIL_TWILIGHT_ELEV = - 6"

definition TRANSITION_LOW :: rat where
  "TRANSITION_LOW = SOLAR_CIVIL_TWILIGHT_ELEV"

definition TRANSITION_HIGH :: rat where
  "TRANSITION_HIGH = 3"

definition MIN_TEMP :: int where "MIN_TEMP = 1000"
definition MAX_TEMP :: int where "MAX_TEMP = 10000"

text \<open>The exit statuses of \<^verbatim>\<open>stdlib.h\<close>.\<close>

definition EXIT_SUCCESS :: int where "EXIT_SUCCESS = 0"
definition EXIT_FAILURE :: int where "EXIT_FAILURE = 1"


section \<open>The temperature mapper\<close>

text \<open>
  \<^verbatim>\<open>calculate_temp\<close>. In the transition branch \<^verbatim>\<open>a\<close> is a \<^verbatim>\<open>float\<close>:
  the quotient is computed in \<^verbatim>\<open>double\<close> and rounded to binary32 by the
  initialisation; \<^verbatim>\<open>(1.0-a)*temp_night\<close> is a \<^verbatim>\<open>double\<close> product, whereas
  \<^verbatim>\<open>a*temp_day\<close> multiplies a \<^verbatim>\<open>float\<close> by an \<^verbatim>\<open>int\<close> and is therefore a
  \<^verbatim>\<open>float\<close> product; the sum is a \<^verbatim>\<open>double\<close>, converted to \<^verbatim>\<open>int\<close> by the
  assignment to \<^verbatim>\<open>temp\<close>. The messages printed when \<^verbatim>\<open>verbose\<close> is set do not
  influence the result and are left out.
\<close>

definition calculate_temp :: "double \<Rightarrow> int \<Rightarrow> int \<Rightarrow> int option" where
  "calculate_temp elevation temp_day temp_night =
     (if double_less elevation TRANSITION_LOW then Some temp_night
      else if double_less elevation TRANSITION_HIGH then
        (case elevation of
           Finite e \<Rightarrow>
             let a = binary32 (binary64 (binary64 (TRANSITION_LOW - e) /
                                         binary64 (TRANSITION_LOW - TRANSITION_HIGH)))
             in double_to_int
                  (binary64 (binary64 (binary64 (1 - a) * binary64 (of_int temp_night)) +
                             binary32 (a * binary32 (of_int temp_day))))
         | _ \<Rightarrow> None)
      else Some temp_day)"

text \<open>
  The mapper as the specification words it: \<open>round((1-a) * night_k + a * day_k)\<close> with
  \<open>a = (LOW - elevation) / (LOW - HIGH)\<close>, in exact arithmetic.
\<close>

definition spec_fraction :: "rat \<Rightarrow> rat" where
  "spec_fraction e = (TRANSITION_LOW - e) / (TRANSITION_LOW - TRANSITION_HIGH)"

definition spec_interpolation :: "rat \<Rightarrow> int \<Rightarrow> int \<Rightarrow> rat" where
  "spec_interpolation e D N =
     (1 - spec_fraction e) * of_int N + spec_fraction e * of_int D"

definition spec_map_temperature :: "rat \<Rightarrow> int \<Rightarrow> int \<Rightarrow> int" where
  "spec_map_temperature e D N = round (spec_interpolation e D N)"


section \<open>The backends\<close>

text \<open>
  \<^verbatim>\<open>randr.c\<close> and \<^verbatim>\<open>vidmode.c\<close> are external. One call of
  \<^verbatim>\<open>adjust_temperature\<close> calls each of their functions at most once, so what they
  answer during that call is a record of four return values. Which of the two is compiled
  in is the build configuration; the source refuses to compile with neither.
\<close>

record build =
  ENABLE_RANDR :: bool
  ENABLE_VIDMODE :: bool

record backend_results =
  randr_check_extension :: int
  randr_set_temperature :: int
  vidmode_check_extension :: int
  vidmode_set_temperature :: int

type_synonym gamma = "rat \<times> rat \<times> rat"

datatype backend_call =
    RandrCheckExtension
  | RandrSetTemperature int int gamma
  | VidmodeCheckExtension
  | VidmodeSetTemperature int int gamma

text \<open>
  \<^verbatim>\<open>adjust_temperature\<close> returns its status together with the backend calls it made, in
  order. The two stages are the two conditionally compiled blocks; each yields the value of
  \<^verbatim>\<open>failed\<close> after it. The messages written to \<^verbatim>\<open>stderr\<close> are left out.
\<close>

definition randr_stage :: "build \<Rightarrow> backend_results \<Rightarrow> int \<Rightarrow> int \<Rightarrow> int \<Rightarrow> gamma
    \<Rightarrow> int \<times> backend_call list" where
  "randr_stage b be screen_num use_randr temp g =
     (if ENABLE_RANDR b \<and> use_randr \<noteq> 0 then
        (if randr_check_extension be < 0 then (1, [RandrCheckExtension])
         else if randr_set_temperature be < 0
           then (1, [RandrCheckExtension, RandrSetTemperature screen_num temp g])
           else (0, [RandrCheckExtension, RandrSetTemperature screen_num temp g]))
      else (0, []))"

definition vidmode_stage :: "build \<Rightarrow> backend_results \<Rightarrow> int \<Rightarrow> int \<Rightarrow> int \<Rightarrow> gamma
    \<Rightarrow> int \<Rightarrow> int \<times> backend_call list" where
  "vidmode_stage b be screen_num use_randr temp g failed =
     (if ENABLE_VIDMODE b \<and> (use_randr = 0 \<or> failed \<noteq> 0) then
        (if vidmode_check_extension be < 0 then (1, [VidmodeCheckExtension])
         else if vidmode_set_temperature be < 0
           then (1, [VidmodeCheckExtension, VidmodeSetTemperature screen_num temp g])
           else (0, [VidmodeCheckExtension, VidmodeSetTemperature screen_num temp g]))
      else (failed, []))"

definition adjust_temperature :: "build \<Rightarrow> backend_results \<Rightarrow> int \<Rightarrow> int \<Rightarrow> int \<Rightarrow> gamma
    \<Rightarrow> int \<times> backend_call list" where
  "adjust_temperature b be screen_num use_randr temp g =
     (case randr_stage b be screen_num use_randr temp g of (failed1, calls1) \<Rightarrow>
      case vidmode_stage b be screen_num use_randr temp g failed1 of (failed2, calls2) \<Rightarrow>
        (if failed2 \<noteq> 0 then - 1 else 0, calls1 @ calls2))"


section \<open>The scheduler\<close>

text \<open>
  The part of \<^verbatim>\<open>main\<close> after the options have been parsed and checked. The
  configuration holds the values of the local variables at that point; \<^verbatim>\<open>lat\<close> and
  \<^verbatim>\<open>lon\<close> are only handed to \<^verbatim>\<open>solar_elevation\<close>. Messages written to
  \<^verbatim>\<open>stdout\<close> and \<^verbatim>\<open>stderr\<close> are left out, and \<^verbatim>\<open>time_t\<close> is taken wide enough
  for \<^verbatim>\<open>tv_sec + 10\<close>.
\<close>

record config =
  lat :: rat
  lon :: rat
  temp_day :: int
  temp_night :: int
  gamma :: gamma
  use_randr :: int
  screen_num :: int
  init_trans :: int
  one_shot :: int

text \<open>The range checks of \<^verbatim>\<open>main\<close> on the two temperatures.\<close>

definition temps_in_range :: "config \<Rightarrow> bool" where
  "temps_in_range cfg \<longleftrightarrow>
     \<not> (temp_day cfg < MIN_TEMP \<or> temp_day cfg \<ge> MAX_TEMP) \<and>
     \<not> (temp_night cfg < MIN_TEMP \<or> temp_night cfg \<ge> MAX_TEMP)"

record timespec =
  tv_sec :: int
  tv_nsec :: int

text \<open>One call of \<^verbatim>\<open>clock_gettime\<close>: its return value and the time it stored.\<close>

record clock_read =
  clock_r :: int
  clock_ts :: timespec

text \<open>What the environment answers during one pass: the clock and the backends.\<close>

record iter_env =
  clock :: clock_read
  backend :: backend_results

text \<open>
  What the scheduler does to the outside: a call of \<^verbatim>\<open>adjust_temperature\<close> (with the
  temperature passed, the backend calls made and the status returned) and a call of
  \<^verbatim>\<open>usleep\<close>.
\<close>

datatype event =
    Apply int "backend_call list" int
  | Usleep int

text \<open>
  How a run stands: the process has exited with a status; or a conversion to \<^verbatim>\<open>int\<close>
  was undefined; or the loop is still running, with the current \<^verbatim>\<open>init_trans\<close>.
\<close>

datatype outcome =
    Exit int
  | Undefined
  | Running int

text \<open>
  \<^verbatim>\<open>tv_sec + tv_nsec / 1000000000.0\<close>: both fields are converted to \<^verbatim>\<open>double\<close>.
\<close>

definition timespec_seconds :: "timespec \<Rightarrow> rat" where
  "timespec_seconds ts =
     binary64 (binary64 (of_int (tv_sec ts)) +
               binary64 (binary64 (of_int (tv_nsec ts)) / binary64 1000000000))"

definition short_trans_len :: int where
  "short_trans_len = 10"

definition transition_alpha :: "timespec \<Rightarrow> timespec \<Rightarrow> rat" where
  "transition_alpha now short_trans_end =
     (let start = timespec_seconds now;
          end = timespec_seconds short_trans_end
      in binary64 (binary64 (end - start) / binary32 (of_int short_trans_len)))"

text \<open>
  The block \<^verbatim>\<open>if (init_trans) { ... }\<close> of the loop: it yields the new values of
  \<^verbatim>\<open>init_trans\<close> and \<^verbatim>\<open>temp\<close>.
\<close>

definition initial_transition :: "int \<Rightarrow> timespec \<Rightarrow> timespec \<Rightarrow> int \<Rightarrow> (int \<times> int) option" where
  "initial_transition it now short_trans_end temp =
     (if it \<noteq> 0 then
        (let alpha = transition_alpha now short_trans_end in
         if alpha < 0 then Some (0, temp)
         else (case double_to_int
                      (binary64 (binary64 (alpha * binary64 6500) +
                                 binary64 (binary64 (1 - alpha) * binary64 (of_int temp))))
               of None \<Rightarrow> None | Some temp' \<Rightarrow> Some (it, temp')))
      else Some (it, temp))"

datatype step =
    Exited int "event list"
  | Undef
  | Continue int "event list"

text \<open>
  One pass through the body of \<^verbatim>\<open>while (1)\<close>. \<^verbatim>\<open>solar_elevation\<close> is external
  (\<^verbatim>\<open>solar.c\<close>) and is a parameter. The state carried from pass to pass is
  \<^verbatim>\<open>init_trans\<close>; \<^verbatim>\<open>short_trans_end\<close> is fixed before the loop.
\<close>

definition iteration :: "build \<Rightarrow> (timespec \<Rightarrow> rat \<Rightarrow> rat \<Rightarrow> double) \<Rightarrow> config \<Rightarrow> timespec
    \<Rightarrow> int \<Rightarrow> iter_env \<Rightarrow> step" where
  "iteration b solar_elevation cfg short_trans_end it env =
     (if clock_r (clock env) < 0 then Exited EXIT_FAILURE []
      else
        let now = clock_ts (clock env);
            elevation = solar_elevation now (lat cfg) (lon cfg)
        in case calculate_temp elevation (temp_day cfg) (temp_night cfg) of
             None \<Rightarrow> Undef
           | Some temp0 \<Rightarrow>
              (case initial_transition it now short_trans_end temp0 of
                 None \<Rightarrow> Undef
               | Some (it', temp) \<Rightarrow>
                  (case adjust_temperature b (backend env) (screen_num cfg) (use_randr cfg)
                          temp (gamma cfg) of
                     (r, calls) \<Rightarrow>
                       if r < 0 then Exited EXIT_FAILURE [Apply temp calls r]
                       else Continue it'
                              [Apply temp calls r,
                               Usleep (if it' \<noteq> 0 then 100000 else 5000000)])))"

text \<open>
  The loop never ends by itself. A run is driven by the list of what the environment
  answers in the successive passes; when the list is used up the loop is still running,
  with the current \<^verbatim>\<open>init_trans\<close>.
\<close>

fun continuous_loop :: "build \<Rightarrow> (timespec \<Rightarrow> rat \<Rightarrow> rat \<Rightarrow> double) \<Rightarrow> config \<Rightarrow> timespec
    \<Rightarrow> int \<Rightarrow> iter_env list \<Rightarrow> event list \<times> outcome" where
  "continuous_loop b se cfg ste it [] = ([], Running it)"
| "continuous_loop b se cfg ste it (env # envs) =
     (case iteration b se cfg ste it env of
        Exited c evs \<Rightarrow> (evs, Exit c)
      | Undef \<Rightarrow> ([], Undefined)
      | Continue it' evs \<Rightarrow>
          (case continuous_loop b se cfg ste it' envs of
             (evs', out) \<Rightarrow> (evs @ evs', out)))"

text \<open>The \<^verbatim>\<open>else\<close> branch of \<^verbatim>\<open>if (one_shot)\<close>.\<close>

definition continuous_mode :: "build \<Rightarrow> (timespec \<Rightarrow> rat \<Rightarrow> rat \<Rightarrow> double) \<Rightarrow> config
    \<Rightarrow> clock_read \<Rightarrow> iter_env list \<Rightarrow> event list \<times> outcome" where
  "continuous_mode b se cfg c0 envs =
     (if clock_r c0 < 0 then ([], Exit EXIT_FAILURE)
      else
        let short_trans_end =
              (clock_ts c0)\<lparr>tv_sec := tv_sec (clock_ts c0) + short_trans_len\<rparr>
        in continuous_loop b se cfg short_trans_end (init_trans cfg) envs)"

text \<open>The \<^verbatim>\<open>then\<close> branch of \<^verbatim>\<open>if (one_shot)\<close>, followed by the final return.\<close>

definition one_shot_mode :: "build \<Rightarrow> (timespec \<Rightarrow> rat \<Rightarrow> rat \<Rightarrow> double) \<Rightarrow> config
    \<Rightarrow> clock_read \<Rightarrow> backend_results \<Rightarrow> event list \<times> outcome" where
  "one_shot_mode b se cfg c0 be =
     (if clock_r c0 < 0 then ([], Exit EXIT_FAILURE)
      else
        let now = clock_ts c0;
            elevation = se now (lat cfg) (lon cfg)
        in case calculate_temp elevation (temp_day cfg) (temp_night cfg) of
             None \<Rightarrow> ([], Undefined)
           | Some temp \<Rightarrow>
              (case adjust_temperature b be (screen_num cfg) (use_randr cfg) temp
                      (gamma cfg) of
                 (r, calls) \<Rightarrow>
                   if r < 0 then ([Apply temp calls r], Exit EXIT_FAILURE)
                   else ([Apply temp calls r], Exit EXIT_SUCCESS)))"

text \<open>
  \<^verbatim>\<open>main\<close> from \<^verbatim>\<open>if (one_shot)\<close> on. The first clock reading \<open>c0\<close> is the one
  either branch starts with; \<open>be\<close> is what the backends answer in one-shot mode and
  \<open>envs\<close> what the environment answers to the passes of the loop.
\<close>

definition main :: "build \<Rightarrow> (timespec \<Rightarrow> rat \<Rightarrow> rat \<Rightarrow> double) \<Rightarrow> config
    \<Rightarrow> clock_read \<Rightarrow> backend_results \<Rightarrow> iter_env list \<Rightarrow> event list \<times> outcome" where
  "main b se cfg c0 be envs =
     (if one_shot cfg \<noteq> 0 then one_shot_mode b se cfg c0 be
      else continuous_mode b se cfg c0 envs)"


section \<open>Vocabulary of the properties\<close>

text \<open>A backend fails when its extension check or its set-temperature call is negative.\<close>

definition randr_failed :: "backend_results \<Rightarrow> bool" where
  "randr_failed be \<longleftrightarrow> randr_check_extension be < 0 \<or> randr_set_temperature be < 0"

definition vidmode_failed :: "backend_results \<Rightarrow> bool" where
  "vidmode_failed be \<longleftrightarrow> vidmode_check_extension be < 0 \<or> vidmode_set_temperature be < 0"

definition randr_attempted :: "backend_call list \<Rightarrow> bool" where
  "randr_attempted calls \<longleftrightarrow> RandrCheckExtension \<in> set calls"

definition vidmode_attempted :: "backend_call list \<Rightarrow> bool" where
  "vidmode_attempted calls \<longleftrightarrow> VidmodeCheckExtension \<in> set calls"

text \<open>
  The two floating-point expressions of the transition branch of \<^verbatim>\<open>calculate_temp\<close>:
  the \<^verbatim>\<open>float\<close> variable \<^verbatim>\<open>a\<close> and the \<^verbatim>\<open>double\<close> that is assigned to
  \<^verbatim>\<open>temp\<close>.
\<close>

definition transition_a :: "rat \<Rightarrow> rat" where
  "transition_a e = binary32 (binary64 (binary64 (TRANSITION_LOW - e) /
                                         binary64 (TRANSITION_LOW - TRANSITION_HIGH)))"

definition transition_value :: "rat \<Rightarrow> int \<Rightarrow> int \<Rightarrow> rat" where
  "transition_value e D N =
     binary64 (binary64 (binary64 (1 - transition_a e) * binary64 (of_int N)) +
               binary32 (transition_a e * binary32 (of_int D)))"



text \<open>
  The ramp is active in a pass when \<^verbatim>\<open>init_trans\<close> is set and the pass does not find
  the ramp over (\<^verbatim>\<open>alpha < 0\<close>); these are the passes that blend.
\<close>

definition ramp_active :: "int \<Rightarrow> timespec \<Rightarrow> timespec \<Rightarrow> bool" where
  "ramp_active it now short_trans_end \<longleftrightarrow>
     it \<noteq> 0 \<and> \<not> transition_alpha now short_trans_end < 0"

text \<open>
  STEADY as the specification words it: every pass applies the elevation-derived target
  unmodified and polls again after 5 seconds; a failed clock reading or apply is fatal.
\<close>

fun steady_loop :: "build \<Rightarrow> (timespec \<Rightarrow> rat \<Rightarrow> rat \<Rightarrow> double) \<Rightarrow> config
    \<Rightarrow> iter_env list \<Rightarrow> event list \<times> outcome" where
  "steady_loop b se cfg [] = ([], Running 0)"
| "steady_loop b se cfg (env # envs) =
     (if clock_r (clock env) < 0 then ([], Exit EXIT_FAILURE)
      else
        case calculate_temp (se (clock_ts (clock env)) (lat cfg) (lon cfg))
               (temp_day cfg) (temp_night cfg) of
          None \<Rightarrow> ([], Undefined)
        | Some temp \<Rightarrow>
           (case adjust_temperature b (backend env) (screen_num cfg) (use_randr cfg) temp
                   (gamma cfg) of
              (r, calls) \<Rightarrow>
                if r < 0 then ([Apply temp calls r], Exit EXIT_FAILURE)
                else (case steady_loop b se cfg envs of
                        (evs, out) \<Rightarrow> (Apply temp calls r # Usleep 5000000 # evs, out))))"

text \<open>
  A clock reading as \<^verbatim>\<open>clock_gettime\<close> stores it, with seconds below \<open>2\<^sup>3\<^sup>2\<close>; and the
  time from one reading to another, in nanoseconds.
\<close>

definition valid_timespec :: "timespec \<Rightarrow> bool" where
  "valid_timespec ts \<longleftrightarrow>
     0 \<le> tv_sec ts \<and> tv_sec ts < 4294967296 \<and> 0 \<le> tv_nsec ts \<and> tv_nsec ts < 1000000000"

definition elapsed_ns :: "timespec \<Rightarrow> timespec \<Rightarrow> int" where
  "elapsed_ns start now =
     (tv_sec now - tv_sec start) * 1000000000 + (tv_nsec now - tv_nsec start)"

text \<open>
  The arguments of the \<^verbatim>\<open>usleep\<close> calls of a trace, in order; the end of the ramp as
  \<^verbatim>\<open>main\<close> computes it from the first clock reading; and the clock reading of the
  \<open>j\<close>-th pass.
\<close>

fun sleeps :: "event list \<Rightarrow> int list" where
  "sleeps [] = []"
| "sleeps (Usleep n # evs) = n # sleeps evs"
| "sleeps (Apply t calls r # evs) = sleeps evs"

definition ramp_end :: "timespec \<Rightarrow> timespec" where
  "ramp_end start = start\<lparr>tv_sec := tv_sec start + short_trans_len\<rparr>"

definition reading :: "iter_env list \<Rightarrow> nat \<Rightarrow> timespec" where
  "reading envs j = clock_ts (clock (envs ! j))"


section \<open>Sample inputs\<close>

text \<open>
  A build with both backends; backends that succeed, of which RANDR fails to set, and that
  both fail to set; a sun that stays below the horizon and one that stays at -1.5 degrees;
  the default configuration; clock readings.
\<close>

definition both_backends :: build where
  "both_backends = \<lparr>ENABLE_RANDR = True, ENABLE_VIDMODE = True\<rparr>"

definition randr_set_fails :: backend_results where
  "randr_set_fails = \<lparr>randr_check_extension = 0, randr_set_temperature = - 1,
     vidmode_check_extension = 0, vidmode_set_temperature = 0\<rparr>"

definition backends_ok :: backend_results where
  "backends_ok = \<lparr>randr_check_extension = 0, randr_set_temperature = 0,
     vidmode_check_extension = 0, vidmode_set_temperature = 0\<rparr>"

definition backends_fail :: backend_results where
  "backends_fail = \<lparr>randr_check_extension = 0, randr_set_temperature = - 1,
     vidmode_check_extension = 0, vidmode_set_temperature = - 1\<rparr>"

definition always_night :: "timespec \<Rightarrow> rat \<Rightarrow> rat \<Rightarrow> double" where
  "always_night ts la lo = Finite (- 10)"

definition sample_config :: config where
  "sample_config = \<lparr>lat = 0, lon = 0, temp_day = 5500, temp_night = 3700,
     gamma = (1, 1, 1), use_randr = 1, screen_num = - 1, init_trans = 1, one_shot = 0\<rparr>"

definition clock_at :: "int \<Rightarrow> int \<Rightarrow> clock_read" where
  "clock_at s ns = \<lparr>clock_r = 0, clock_ts = \<lparr>tv_sec = s, tv_nsec = ns\<rparr>\<rparr>"

definition clock_fails :: clock_read where
  "clock_fails = \<lparr>clock_r = - 1, clock_ts = \<lparr>tv_sec = 0, tv_nsec = 0\<rparr>\<rparr>"

definition env_at :: "int \<Rightarrow> int \<Rightarrow> backend_results \<Rightarrow> iter_env" where
  "env_at s ns be = \<lparr>clock = clock_at s ns, backend = be\<rparr>"

definition always_twilight :: "timespec \<Rightarrow> rat \<Rightarrow> rat \<Rightarrow> double" where
  "always_twilight ts la lo = Finite (- 3 / 2)"

text \<open>
  Four passes, 3 s, 10 s, 10 s and 1 microsecond, and 5 s after a start at the epoch second
  1700000000, and the trace of the continuous scheduler on them.
\<close>

definition sample_passes :: "iter_env list" where
  "sample_passes = [env_at 1700000003 0 backends_ok, env_at 1700000010 0 backends_ok,
     env_at 1700000010 1000 backends_ok, env_at 1700000005 0 backends_ok]"

definition sample_trace :: "event list" where
  "sample_trace =
     [Apply 5660 [RandrCheckExtension, RandrSetTemperature (- 1) 5660 (1, 1, 1)] 0,
      Usleep 100000,
      Apply 3700 [RandrCheckExtension, RandrSetTemperature (- 1) 3700 (1, 1, 1)] 0,
      Usleep 100000,
      Apply 3700 [RandrCheckExtension, RandrSetTemperature (- 1) 3700 (1, 1, 1)] 0,
      Usleep 5000000,
      Apply 3700 [RandrCheckExtension, RandrSetTemperature (- 1) 3700 (1, 1, 1)] 0,
      Usleep 5000000]"


section \<open>Rounding\<close>

lemma pow2_powi: "pow2 k = 2 powi k"
  by (simp add: pow2_def power_int_def inverse_eq_divide power_one_over)

lemma pow2_pos: "0 < pow2 k"
  by (simp add: pow2_powi)

lemma expo_le:
  assumes "x \<noteq> 0"
  shows "pow2 (expo x) \<le> \<bar>x\<bar>"
proof -
  obtain p q where pq: "quotient_of \<bar>x\<bar> = (p, q)"
    by (cases "quotient_of \<bar>x\<bar>") auto
  have q: "0 < q" using quotient_of_denom_pos [OF pq] .
  have x: "\<bar>x\<bar> = of_int p / of_int q" using quotient_of_div [OF pq] .
  have p: "0 < p"
  proof (rule ccontr)
    assume "\<not> 0 < p"
    then have "of_int p / (of_int q :: rat) \<le> 0"
      using q by (simp add: divide_nonpos_pos)
    with x assms show False by simp
  qed
  define k where "k = bitlen p - bitlen q"
  show ?thesis
  proof (cases "pow2 k \<le> \<bar>x\<bar>")
    case True
    then show ?thesis by (simp add: expo_def pq k_def Let_def)
  next
    case False
    then have e: "expo x = k - 1" by (simp add: expo_def pq k_def Let_def)
    have bp: "2 ^ nat (bitlen p - 1) \<le> p" using bitlen_bounds [OF p] by simp
    have bq: "q < 2 ^ nat (bitlen q)" using bitlen_bounds [OF q] by simp
    have bp1: "1 \<le> bitlen p"
      using p bitlen_eq_zero_iff [of p] bitlen_nonneg [of p] by linarith
    have bq0: "0 \<le> bitlen q" by (rule bitlen_nonneg)
    have "(2::rat) powi (bitlen p - 1) = 2 ^ nat (bitlen p - 1)"
      using bp1 by (simp add: power_int_def)
    also have "\<dots> = of_int (2 ^ nat (bitlen p - 1))" by simp
    also have "\<dots> \<le> of_int p" using bp by (simp only: of_int_le_iff)
    finally have P: "(2::rat) powi (bitlen p - 1) \<le> of_int p" .
    have "(of_int q :: rat) \<le> of_int (2 ^ nat (bitlen q))"
      using bq by (simp only: of_int_le_iff)
    also have "\<dots> = 2 powi (bitlen q)" using bq0 by (simp add: power_int_def)
    finally have Q: "(of_int q :: rat) \<le> 2 powi (bitlen q)" .
    have "pow2 (k - 1) = 2 powi (bitlen p - 1) / 2 powi (bitlen q)"
      by (simp add: pow2_powi k_def power_int_diff)
    also have "\<dots> \<le> of_int p / of_int q"
      using P Q q p by (intro frac_le) auto
    finally show ?thesis using e x by simp
  qed
qed

lemma expo_gt:
  assumes "x \<noteq> 0"
  shows "\<bar>x\<bar> < pow2 (expo x + 1)"
proof -
  obtain p q where pq: "quotient_of \<bar>x\<bar> = (p, q)"
    by (cases "quotient_of \<bar>x\<bar>") auto
  have q: "0 < q" using quotient_of_denom_pos [OF pq] .
  have x: "\<bar>x\<bar> = of_int p / of_int q" using quotient_of_div [OF pq] .
  have p: "0 < p"
  proof (rule ccontr)
    assume "\<not> 0 < p"
    then have "of_int p / (of_int q :: rat) \<le> 0"
      using q by (simp add: divide_nonpos_pos)
    with x assms show False by simp
  qed
  define k where "k = bitlen p - bitlen q"
  show ?thesis
  proof (cases "pow2 k \<le> \<bar>x\<bar>")
    case False
    then show ?thesis by (simp add: expo_def pq k_def Let_def)
  next
    case True
    then have e: "expo x = k" by (simp add: expo_def pq k_def Let_def)
    have bp: "p < 2 ^ nat (bitlen p)" using bitlen_bounds [OF p] by simp
    have bq: "2 ^ nat (bitlen q - 1) \<le> q" using bitlen_bounds [OF q] by simp
    have bq1: "1 \<le> bitlen q"
      using q bitlen_eq_zero_iff [of q] bitlen_nonneg [of q] by linarith
    have bp0: "0 \<le> bitlen p" by (rule bitlen_nonneg)
    have "(of_int p :: rat) < of_int (2 ^ nat (bitlen p))"
      using bp by (simp only: of_int_less_iff)
    also have "\<dots> = 2 powi (bitlen p)" using bp0 by (simp add: power_int_def)
    finally have P: "(of_int p :: rat) < 2 powi (bitlen p)" .
    have "(2::rat) powi (bitlen q - 1) = of_int (2 ^ nat (bitlen q - 1))"
      using bq1 by (simp add: power_int_def)
    also have "\<dots> \<le> of_int q" using bq by (simp only: of_int_le_iff)
    finally have Q: "(2::rat) powi (bitlen q - 1) \<le> of_int q" .
    have "of_int p / of_int q < 2 powi (bitlen p) / (2::rat) powi (bitlen q - 1)"
      using P Q q p by (intro frac_less) auto
    also have "\<dots> = pow2 (k + 1)"
      by (simp add: pow2_powi k_def power_int_diff power_int_add)
    finally show ?thesis using e x by simp
  qed
qed

lemma rne_err: "\<bar>of_int (rne x) - x\<bar> \<le> 1 / 2"
proof -
  have "of_int \<lfloor>x\<rfloor> \<le> x" "x < of_int \<lfloor>x\<rfloor> + 1" by linarith+
  then show ?thesis
    by (auto simp add: rne_def Let_def abs_le_iff)
qed

lemma rne_of_int: "rne (of_int m) = m"
  by (simp add: rne_def)

text \<open>Rounding to \<open>p\<close> bits has relative error at most \<open>2\<^sup>-\<^sup>p\<close>.\<close>

lemma fl_err: "\<bar>fl p x - x\<bar> \<le> \<bar>x\<bar> / 2 ^ p"
proof (cases "x = 0")
  case True
  then show ?thesis by (simp add: fl_def)
next
  case False
  define u where "u = pow2 (expo x - int p + 1)"
  have u: "0 < u" by (simp add: u_def pow2_pos)
  have "fl p x - x = (of_int (rne (x / u)) - x / u) * u"
    using False u by (simp add: fl_def u_def Let_def algebra_simps)
  then have "\<bar>fl p x - x\<bar> = \<bar>of_int (rne (x / u)) - x / u\<bar> * u"
    using u by (simp add: abs_mult)
  also have "\<dots> \<le> 1 / 2 * u"
    using rne_err [of "x / u"] u by (intro mult_right_mono) auto
  also have "\<dots> = pow2 (expo x) / 2 ^ p"
    by (simp add: u_def pow2_powi power_int_diff power_int_add)
  also have "\<dots> \<le> \<bar>x\<bar> / 2 ^ p"
    using expo_le [OF False] by (simp add: divide_right_mono)
  finally show ?thesis .
qed

text \<open>An integer of fewer than \<open>p\<close> bits is not changed by rounding.\<close>

lemma fl_int_exact:
  assumes "\<bar>n\<bar> < 2 ^ p"
  shows "fl p (of_int n) = of_int n"
proof (cases "n = 0")
  case True
  then show ?thesis by (simp add: fl_def)
next
  case False
  define x :: rat where "x = of_int n"
  have x0: "x \<noteq> 0" using False by (simp add: x_def)
  have "2 powi (expo x) \<le> \<bar>x\<bar>" using expo_le [OF x0] by (simp add: pow2_powi)
  also have "\<bar>x\<bar> < 2 ^ p"
  proof -
    have "(of_int \<bar>n\<bar> :: rat) < of_int (2 ^ p)" using assms by (simp only: of_int_less_iff)
    then show ?thesis by (simp add: x_def)
  qed
  also have "(2::rat) ^ p = 2 powi (int p)" by simp
  finally have "(2::rat) powi (expo x) < 2 powi (int p)" .
  then have "expo x < int p"
    by (rule power_int_le_imp_less_exp [rotated]) auto
  then have "expo x - int p + 1 \<le> 0" by simp
  then obtain j where j: "expo x - int p + 1 = - int j"
    by (rule nonpos_int_cases)
  have u: "pow2 (expo x - int p + 1) = 1 / 2 ^ j"
    by (simp add: j pow2_powi power_int_minus_divide)
  have "x / (1 / 2 ^ j) = of_int (n * 2 ^ j)" by (simp add: x_def)
  then have "rne (x / (1 / 2 ^ j)) = n * 2 ^ j" by (simp only: rne_of_int)
  then show ?thesis using x0
    by (simp add: fl_def u x_def [symmetric] Let_def)
qed

text \<open>Rounding keeps the sign.\<close>

lemma fl_neg_iff:
  assumes "0 < p"
  shows "fl p x < 0 \<longleftrightarrow> x < 0"
proof -
  have "(2::rat) ^ 1 \<le> 2 ^ p" using assms by (intro power_increasing) auto
  then have "\<bar>x\<bar> / 2 ^ p \<le> \<bar>x\<bar> / 2"
    by (intro divide_left_mono) auto
  with fl_err [of p x] have "\<bar>fl p x - x\<bar> \<le> \<bar>x\<bar> / 2" by linarith
  moreover have "x = 0 \<Longrightarrow> fl p x = 0" by (simp add: fl_def)
  ultimately show ?thesis by (cases "x = 0") (auto simp: abs_le_iff abs_if split: if_splits)
qed

text \<open>Rounding is monotone on the non-negative values.\<close>

lemma rne_mono: "x \<le> y \<Longrightarrow> rne x \<le> rne y"
proof (cases "x = y")
  case True
  then show ?thesis by simp
next
  case False
  assume "x \<le> y"
  with False have "x < y" by simp
  moreover have "of_int (rne x) \<le> x + 1 / 2" "y - 1 / 2 \<le> of_int (rne y)"
    using rne_err [of x] rne_err [of y] by linarith+
  ultimately have "(of_int (rne x) :: rat) < of_int (rne y) + 1" by linarith
  then have "(of_int (rne x) :: rat) < of_int (rne y + 1)" by simp
  then have "rne x < rne y + 1" by (simp only: of_int_less_iff)
  then show ?thesis by simp
qed

lemma fl_pos_bounds:
  assumes "0 < p" "0 < x"
  shows "pow2 (expo x) \<le> fl p x" and "fl p x \<le> pow2 (expo x + 1)"
proof -
  define u where "u = pow2 (expo x - int p + 1)"
  have u: "0 < u" by (simp add: u_def pow2_pos)
  have x0: "x \<noteq> 0" using assms by simp
  have f: "fl p x = of_int (rne (x / u)) * u"
    using x0 by (simp add: fl_def u_def Let_def)
  have lo: "pow2 (expo x) = of_int (2 ^ (p - 1)) * u"
  proof -
    have "int (p - 1) = int p - 1" using assms(1) by simp
    then have "(2::rat) ^ (p - 1) = 2 powi (int p - 1)"
      by (metis power_int_of_nat)
    then show ?thesis
      by (simp add: u_def pow2_powi power_int_add [symmetric] del: power_int_of_nat)
  qed
  have hi: "pow2 (expo x + 1) = of_int (2 ^ p) * u"
  proof -
    have "(2::rat) ^ p = 2 powi (int p)" by simp
    then show ?thesis
      by (simp add: u_def pow2_powi power_int_add [symmetric] del: power_int_of_nat)
  qed
  have "pow2 (expo x) \<le> x" using expo_le [OF x0] assms by simp
  then have "of_int (2 ^ (p - 1)) \<le> x / u"
    using u by (simp add: lo pos_le_divide_eq)
  then have "rne (of_int (2 ^ (p - 1))) \<le> rne (x / u)" by (rule rne_mono)
  then have "(of_int (2 ^ (p - 1)) :: rat) \<le> of_int (rne (x / u))"
    by (simp only: rne_of_int of_int_le_iff)
  then show "pow2 (expo x) \<le> fl p x"
    unfolding lo f using u by (intro mult_right_mono) simp_all
  have "x < pow2 (expo x + 1)" using expo_gt [OF x0] assms by simp
  then have "x / u \<le> of_int (2 ^ p)"
    using u by (simp add: hi pos_divide_le_eq)
  then have "rne (x / u) \<le> rne (of_int (2 ^ p))" by (rule rne_mono)
  then have "(of_int (rne (x / u)) :: rat) \<le> of_int (2 ^ p)"
    by (simp only: rne_of_int of_int_le_iff)
  then show "fl p x \<le> pow2 (expo x + 1)"
    unfolding hi f using u by (intro mult_right_mono) simp_all
qed

lemma fl_mono_pos:
  assumes "0 < p" "0 < x" "x \<le> y"
  shows "fl p x \<le> fl p y"
proof -
  have y: "0 < y" using assms by simp
  have x0: "x \<noteq> 0" and y0: "y \<noteq> 0" using assms by simp_all
  have "2 powi (expo x) \<le> x" using expo_le [OF x0] assms by (simp add: pow2_powi)
  also have "x \<le> y" by fact
  also have "y < 2 powi (expo y + 1)" using expo_gt [OF y0] y by (simp add: pow2_powi)
  finally have "(2::rat) powi (expo x) < 2 powi (expo y + 1)" .
  have "expo x < expo y + 1"
  proof (rule ccontr)
    assume "\<not> expo x < expo y + 1"
    then have "expo y + 1 \<le> expo x" by simp
    then have "(2::rat) powi (expo y + 1) \<le> 2 powi (expo x)"
      by (rule power_int_increasing) simp
    with \<open>(2::rat) powi (expo x) < 2 powi (expo y + 1)\<close> show False by simp
  qed
  then consider "expo x = expo y" | "expo x + 1 \<le> expo y" by linarith
  then show ?thesis
  proof cases
    case 1
    define u where "u = pow2 (expo y - int p + 1)"
    have u: "0 < u" by (simp add: u_def pow2_pos)
    have "x / u \<le> y / u" using assms u by (simp add: divide_right_mono)
    then have "rne (x / u) \<le> rne (y / u)" by (rule rne_mono)
    then have "(of_int (rne (x / u)) :: rat) \<le> of_int (rne (y / u))"
      by (simp only: of_int_le_iff)
    then have "of_int (rne (x / u)) * u \<le> of_int (rne (y / u)) * u"
      using u by (intro mult_right_mono) simp_all
    then show ?thesis using x0 y0 1 by (simp add: fl_def u_def Let_def)
  next
    case 2
    have "fl p x \<le> pow2 (expo x + 1)" using assms(1,2) by (rule fl_pos_bounds)
    also have "\<dots> \<le> pow2 (expo y)"
      using 2 by (simp add: pow2_powi power_int_increasing)
    also have "\<dots> \<le> fl p y" using assms(1) y by (rule fl_pos_bounds)
    finally show ?thesis .
  qed
qed

lemma fl_nonneg:
  assumes "0 < p" "0 \<le> x"
  shows "0 \<le> fl p x"
  using fl_neg_iff [OF assms(1), of x] assms(2) by simp

lemma fl_mono_nonneg:
  assumes "0 < p" "0 \<le> x" "x \<le> y"
  shows "fl p x \<le> fl p y"
proof (cases "x = 0")
  case True
  have "0 \<le> fl p y" using assms by (intro fl_nonneg) simp_all
  then show ?thesis using True by (simp add: fl_def)
next
  case False
  then have "0 < x" using assms by simp
  then show ?thesis using assms by (intro fl_mono_pos)
qed

text \<open>
  Known values: the \<^verbatim>\<open>float\<close> nearest to 1/3, the \<^verbatim>\<open>double\<close> nearest to 0.7, and
  two ties, which go to the even significand.
\<close>

lemma rounding_examples:
  "binary32 (1 / 3) = 11184811 / 33554432"
  "binary64 (7 / 10) = 6305039478318694 / 9007199254740992"
  "binary32 (1 + 1 / 2 ^ 24) = 1"
  "binary32 (1 + 3 / 2 ^ 24) = 1 + 1 / 2 ^ 22"
  by code_simp+


section \<open>The temperature mapper: exact cases\<close>

lemma binary64_0: "binary64 0 = 0"
  by (simp add: binary64_def fl_def)

lemma binary32_0: "binary32 0 = 0"
  by (simp add: binary32_def fl_def)

lemma binary64_of_int:
  "\<bar>n\<bar> < 2 ^ 53 \<Longrightarrow> binary64 (of_int n) = of_int n"
  unfolding binary64_def by (rule fl_int_exact)

lemma binary32_of_int:
  "\<bar>n\<bar> < 2 ^ 24 \<Longrightarrow> binary32 (of_int n) = of_int n"
  unfolding binary32_def by (rule fl_int_exact)

lemma binary64_1: "binary64 1 = 1"
  using binary64_of_int [of 1] by simp

lemma double_to_int_of_int:
  "INT_MIN \<le> n \<Longrightarrow> n \<le> INT_MAX \<Longrightarrow> double_to_int (of_int n) = Some n"
  by (simp add: double_to_int_def)

lemma calculate_temp_night:
  "double_less el TRANSITION_LOW \<Longrightarrow> calculate_temp el D N = Some N"
  by (simp add: calculate_temp_def)

lemma calculate_temp_day:
  "double_ge el TRANSITION_HIGH \<Longrightarrow> calculate_temp el D N = Some D"
  by (cases el) (auto simp add: calculate_temp_def TRANSITION_LOW_def TRANSITION_HIGH_def
      SOLAR_CIVIL_TWILIGHT_ELEV_def)

lemma calculate_temp_at_low:
  assumes "1000 \<le> N" "N \<le> 9999"
  shows "calculate_temp (Finite TRANSITION_LOW) D N = Some N"
proof -
  have n: "binary64 (of_int N) = of_int N"
    using assms by (intro binary64_of_int) simp
  have "double_to_int (of_int N) = Some N"
    using assms by (intro double_to_int_of_int) (simp_all add: INT_MIN_def INT_MAX_def)
  then show ?thesis
    by (simp add: calculate_temp_def TRANSITION_LOW_def TRANSITION_HIGH_def
        SOLAR_CIVIL_TWILIGHT_ELEV_def binary64_0 binary32_0 binary64_1 n)
qed


text \<open>
  C3. For day and night temperatures in \<open>[1000, 9999]\<close>: every elevation below \<open>LOW\<close>
  (minus infinity included) maps to the night temperature exactly, the elevation \<open>LOW\<close>
  itself maps to the night temperature too, and every elevation at or above \<open>HIGH\<close>
  (plus infinity included) maps to the day temperature exactly.
\<close>

theorem calculate_temp_outside_band:
  assumes "1000 \<le> D" "D \<le> 9999" "1000 \<le> N" "N \<le> 9999"
  shows "(double_less el TRANSITION_LOW \<longrightarrow> calculate_temp el D N = Some N) \<and>
         calculate_temp (Finite TRANSITION_LOW) D N = Some N \<and>
         (double_ge el TRANSITION_HIGH \<longrightarrow> calculate_temp el D N = Some D)"
  using assms calculate_temp_night calculate_temp_day calculate_temp_at_low by simp

theorem calculate_temp_outside_band_witness:
  "double_less (Finite (- 10)) TRANSITION_LOW \<and>
   calculate_temp (Finite (- 10)) 5500 3700 = Some 3700 \<and>
   calculate_temp (Finite TRANSITION_LOW) 5500 3700 = Some 3700 \<and>
   double_ge (Finite 10) TRANSITION_HIGH \<and>
   calculate_temp (Finite 10) 5500 3700 = Some 5500"
proof -
  have l: "double_less (Finite (- 10)) TRANSITION_LOW"
    by (simp add: TRANSITION_LOW_def SOLAR_CIVIL_TWILIGHT_ELEV_def)
  have h: "double_ge (Finite 10) TRANSITION_HIGH"
    by (simp add: TRANSITION_HIGH_def)
  have r: "(1000::int) \<le> 5500" "(5500::int) \<le> 9999" "(1000::int) \<le> 3700" "(3700::int) \<le> 9999"
    by simp_all
  show ?thesis
    using l h calculate_temp_outside_band [OF r, of "Finite (- 10)"]
      calculate_temp_outside_band [OF r, of "Finite 10"]
    by simp
qed


section \<open>The temperature mapper: the transition band\<close>

text \<open>
  The floating-point value computed in the transition band differs from the exact
  interpolation by at most 0.002: the error of \<^verbatim>\<open>a\<close> is at most \<open>2\<^sup>-\<^sup>2\<^sup>4 + 2\<^sup>-\<^sup>5\<^sup>0\<close>,
  the single-precision product \<^verbatim>\<open>a*temp_day\<close> adds at most \<open>10000 / 2\<^sup>2\<^sup>4\<close>, and the
  double-precision operations add less than \<open>10\<^sup>-\<^sup>1\<^sup>0\<close>.
\<close>

lemma binary64_err: "\<bar>x\<bar> \<le> M \<Longrightarrow> \<bar>binary64 x - x\<bar> \<le> M / 9007199254740992"
proof -
  assume "\<bar>x\<bar> \<le> M"
  then have "\<bar>x\<bar> / 2 ^ 53 \<le> M / 2 ^ 53" by (simp add: divide_right_mono)
  with fl_err [of 53 x] show ?thesis by (simp add: binary64_def)
qed

lemma binary32_err: "\<bar>x\<bar> \<le> M \<Longrightarrow> \<bar>binary32 x - x\<bar> \<le> M / 16777216"
proof -
  assume "\<bar>x\<bar> \<le> M"
  then have "\<bar>x\<bar> / 2 ^ 24 \<le> M / 2 ^ 24" by (simp add: divide_right_mono)
  with fl_err [of 24 x] show ?thesis by (simp add: binary32_def)
qed

lemma abs_mult_le: "\<bar>x\<bar> \<le> a \<Longrightarrow> \<bar>y\<bar> \<le> b \<Longrightarrow> \<bar>x * y\<bar> \<le> a * (b::rat)"
  unfolding abs_mult by (rule mult_mono) auto

lemma transition_a_error:
  assumes "TRANSITION_LOW \<le> e" "e < TRANSITION_HIGH"
  shows "\<bar>transition_a e - spec_fraction e\<bar> \<le> 1 / 16777216 + 1 / 1125899906842624"
proof -
  define A where "A = spec_fraction e"
  define t1 where "t1 = binary64 (- 6 - e)"
  define A1 where "A1 = t1 / (- 9)"
  define q where "q = binary64 A1"
  have e: "- 6 \<le> e" "e < 3"
    using assms by (simp_all add: TRANSITION_LOW_def TRANSITION_HIGH_def
        SOLAR_CIVIL_TWILIGHT_ELEV_def)
  have A: "A = (- 6 - e) / (- 9)"
    by (simp add: A_def spec_fraction_def TRANSITION_LOW_def TRANSITION_HIGH_def
        SOLAR_CIVIL_TWILIGHT_ELEV_def)
  have A01: "0 \<le> A" "A < 1" using e by (simp_all add: A)
  have nine: "binary64 (- 9) = - 9" using binary64_of_int [of "- 9"] by simp
  have a: "transition_a e = binary32 q"
    by (simp add: transition_a_def q_def A1_def t1_def TRANSITION_LOW_def TRANSITION_HIGH_def
        SOLAR_CIVIL_TWILIGHT_ELEV_def nine)
  have "\<bar>- 6 - e\<bar> \<le> 9" using e by simp
  then have t1: "\<bar>t1 - (- 6 - e)\<bar> \<le> 9 / 9007199254740992"
    unfolding t1_def by (rule binary64_err)
  define d where "d = t1 - (- 6 - e)"
  have "A1 - A = d / (- 9)" by (simp add: d_def A1_def A diff_divide_distrib)
  then have "\<bar>A1 - A\<bar> = \<bar>d\<bar> / 9" by simp
  with t1 have A1: "\<bar>A1 - A\<bar> \<le> 1 / 9007199254740992"
    unfolding d_def [symmetric] by linarith
  then have "\<bar>A1\<bar> \<le> 2" using A01 by linarith
  then have q: "\<bar>q - A1\<bar> \<le> 2 / 9007199254740992"
    unfolding q_def by (rule binary64_err)
  have qA: "\<bar>q - A\<bar> \<le> 3 / 9007199254740992" using q A1 by linarith
  then have "\<bar>q\<bar> \<le> 1 + 3 / 9007199254740992" using A01 by linarith
  then have "\<bar>binary32 q - q\<bar> \<le> (1 + 3 / 9007199254740992) / 16777216"
    by (rule binary32_err)
  moreover have "(1 + 3 / 9007199254740992) / 16777216 \<le>
      (1 / 16777216 + 1 / 2251799813685248 :: rat)" by simp
  ultimately have "\<bar>binary32 q - q\<bar> \<le> 1 / 16777216 + 1 / 2251799813685248"
    by (rule order_trans)
  with qA show ?thesis unfolding a A_def [symmetric] by linarith
qed

lemma transition_value_error:
  assumes "TRANSITION_LOW \<le> e" "e < TRANSITION_HIGH"
    and "1000 \<le> D" "D \<le> 9999" "1000 \<le> N" "N \<le> 9999"
  shows "\<bar>transition_value e D N - spec_interpolation e D N\<bar> \<le> 1 / 500"
proof -
  define A where "A = spec_fraction e"
  define a where "a = transition_a e"
  define u where "u = binary64 (1 - a)"
  define p1 where "p1 = binary64 (u * of_int N)"
  define p2 where "p2 = binary32 (a * of_int D)"
  define s where "s = binary64 (p1 + p2)"
  have e: "- 6 \<le> e" "e < 3"
    using assms by (simp_all add: TRANSITION_LOW_def TRANSITION_HIGH_def
        SOLAR_CIVIL_TWILIGHT_ELEV_def)
  have A: "A = (- 6 - e) / (- 9)"
    by (simp add: A_def spec_fraction_def TRANSITION_LOW_def TRANSITION_HIGH_def
        SOLAR_CIVIL_TWILIGHT_ELEV_def)
  have A01: "0 \<le> A" "A < 1" using e by (simp_all add: A)
  have aA: "\<bar>a - A\<bar> \<le> 1 / 16777216 + 1 / 1125899906842624"
    unfolding a_def A_def using assms(1,2) by (rule transition_a_error)
  have Nn: "binary64 (of_int N) = of_int N"
    using assms by (intro binary64_of_int) simp
  have Dd: "binary32 (of_int D) = of_int D"
    using assms by (intro binary32_of_int) simp
  have s: "transition_value e D N = s"
    by (simp add: transition_value_def s_def p1_def p2_def u_def a_def Nn Dd)
  have Nb: "\<bar>of_int N :: rat\<bar> \<le> 9999" using assms by simp
  have Db: "\<bar>of_int D :: rat\<bar> \<le> 9999" using assms by simp
  have DN: "\<bar>of_int D - of_int N :: rat\<bar> \<le> 8999" using assms by simp
  have a1: "\<bar>a\<bar> \<le> 10000 / 9999" using aA A01 by linarith
  have "\<bar>1 - a\<bar> \<le> 2" using aA A01 by linarith
  then have u: "\<bar>u - (1 - a)\<bar> \<le> 2 / 9007199254740992"
    unfolding u_def by (rule binary64_err)
  then have u3: "\<bar>u\<bar> \<le> 3" using aA A01 by linarith
  have "\<bar>u * of_int N\<bar> \<le> 3 * 9999" using u3 Nb by (rule abs_mult_le)
  then have uN: "\<bar>u * of_int N\<bar> \<le> 30000" by linarith
  then have p1: "\<bar>p1 - u * of_int N\<bar> \<le> 30000 / 9007199254740992"
    unfolding p1_def by (rule binary64_err)
  have "\<bar>a * of_int D\<bar> \<le> 10000 / 9999 * 9999" using a1 Db by (rule abs_mult_le)
  then have aD: "\<bar>a * of_int D\<bar> \<le> 10000" by linarith
  then have p2: "\<bar>p2 - a * of_int D\<bar> \<le> 10000 / 16777216"
    unfolding p2_def by (rule binary32_err)
  have "\<bar>p1 + p2\<bar> \<le> 50000" using p1 p2 uN aD by linarith
  then have s1: "\<bar>s - (p1 + p2)\<bar> \<le> 50000 / 9007199254740992"
    unfolding s_def by (rule binary64_err)
  have "\<bar>(u - (1 - a)) * of_int N\<bar> \<le> 2 / 9007199254740992 * 9999" using u Nb by (rule abs_mult_le)
  then have x3: "\<bar>(u - (1 - a)) * of_int N\<bar> \<le> 20000 / 9007199254740992" by linarith
  have "\<bar>(a - A) * (of_int D - of_int N)\<bar> \<le> (1 / 16777216 + 1 / 1125899906842624) * 8999"
    using aA DN by (rule abs_mult_le)
  moreover have "(1 / 16777216 + 1 / 1125899906842624) * 8999 \<le> (8999 / 16777216 + 1 / 1000000 :: rat)"
    by simp
  ultimately have x5: "\<bar>(a - A) * (of_int D - of_int N)\<bar> \<le> 8999 / 16777216 + 1 / 1000000"
    by (rule order_trans)
  define X1 where "X1 = s - (p1 + p2)"
  define X2 where "X2 = p1 - u * of_int N"
  define X3 where "X3 = (u - (1 - a)) * of_int N"
  define X4 where "X4 = p2 - a * of_int D"
  define X5 where "X5 = (a - A) * (of_int D - of_int N)"
  define E where "E = s - spec_interpolation e D N"
  have "E = X1 + X2 + X3 + X4 + X5"
    by (simp add: E_def X1_def X2_def X3_def X4_def X5_def spec_interpolation_def
        A_def [symmetric] algebra_simps)
  moreover have "\<bar>X1\<bar> \<le> 50000 / 9007199254740992" using s1 by (simp only: X1_def)
  moreover have "\<bar>X2\<bar> \<le> 30000 / 9007199254740992" using p1 by (simp only: X2_def)
  moreover have "\<bar>X3\<bar> \<le> 20000 / 9007199254740992" using x3 by (simp only: X3_def)
  moreover have "\<bar>X4\<bar> \<le> 10000 / 16777216" using p2 by (simp only: X4_def)
  moreover have "\<bar>X5\<bar> \<le> 8999 / 16777216 + 1 / 1000000"
    using x5 by (simp only: X5_def)
  ultimately have "\<bar>E\<bar> \<le> 1 / 500" by linarith
  then show ?thesis unfolding s E_def .
qed

lemma spec_fraction_range:
  assumes "TRANSITION_LOW \<le> e" "e \<le> TRANSITION_HIGH"
  shows "0 \<le> spec_fraction e \<and> spec_fraction e \<le> 1"
  using assms by (simp add: spec_fraction_def TRANSITION_LOW_def TRANSITION_HIGH_def
      SOLAR_CIVIL_TWILIGHT_ELEV_def)

lemma spec_fraction_mono:
  "e1 \<le> e2 \<Longrightarrow> spec_fraction e1 \<le> spec_fraction e2"
  by (simp add: spec_fraction_def TRANSITION_LOW_def TRANSITION_HIGH_def
      SOLAR_CIVIL_TWILIGHT_ELEV_def)

lemma convex_bounds:
  fixes A x y lo hi :: rat
  assumes "0 \<le> A" "A \<le> 1" "lo \<le> x" "x \<le> hi" "lo \<le> y" "y \<le> hi"
  shows "lo \<le> (1 - A) * x + A * y \<and> (1 - A) * x + A * y \<le> hi"
proof -
  have 1: "(1 - A) * lo \<le> (1 - A) * x" "A * lo \<le> A * y"
    using assms by (simp_all add: mult_left_mono)
  have 2: "(1 - A) * x \<le> (1 - A) * hi" "A * y \<le> A * hi"
    using assms by (simp_all add: mult_left_mono)
  have "(1 - A) * lo + A * lo = lo" "(1 - A) * hi + A * hi = hi"
    by (simp_all add: algebra_simps)
  with 1 2 show ?thesis by linarith
qed

lemma spec_interpolation_range:
  assumes "TRANSITION_LOW \<le> e" "e \<le> TRANSITION_HIGH"
    and "lo \<le> D" "D \<le> hi" "lo \<le> N" "N \<le> hi"
  shows "of_int lo \<le> spec_interpolation e D N \<and> spec_interpolation e D N \<le> of_int hi"
  unfolding spec_interpolation_def
  using spec_fraction_range [OF assms(1,2)] assms(3-)
  by (intro convex_bounds) simp_all

lemma spec_interpolation_mono:
  assumes "e1 \<le> e2"
  shows "N \<le> D \<Longrightarrow> spec_interpolation e1 D N \<le> spec_interpolation e2 D N"
    and "D \<le> N \<Longrightarrow> spec_interpolation e2 D N \<le> spec_interpolation e1 D N"
proof -
  define A1 where "A1 = spec_fraction e1"
  define A2 where "A2 = spec_fraction e2"
  have A: "0 \<le> A2 - A1" using spec_fraction_mono [OF assms] by (simp add: A1_def A2_def)
  have d: "spec_interpolation e2 D N - spec_interpolation e1 D N =
      (A2 - A1) * (of_int D - of_int N)"
    by (simp add: spec_interpolation_def A1_def A2_def algebra_simps)
  {
    assume "N \<le> D"
    then have "0 \<le> (A2 - A1) * (of_int D - of_int N :: rat)"
      using A by (intro mult_nonneg_nonneg) simp_all
    with d show "spec_interpolation e1 D N \<le> spec_interpolation e2 D N" by linarith
  }
  {
    assume "D \<le> N"
    then have "(A2 - A1) * (of_int D - of_int N :: rat) \<le> 0"
      using A by (intro mult_nonneg_nonpos) simp_all
    with d show "spec_interpolation e2 D N \<le> spec_interpolation e1 D N" by linarith
  }
qed

lemma spec_interpolation_high: "spec_interpolation TRANSITION_HIGH D N = of_int D"
  by (simp add: spec_interpolation_def spec_fraction_def TRANSITION_LOW_def
      TRANSITION_HIGH_def SOLAR_CIVIL_TWILIGHT_ELEV_def)

lemma calculate_temp_band:
  assumes "TRANSITION_LOW \<le> e" "e < TRANSITION_HIGH"
    and "1000 \<le> D" "D \<le> 9999" "1000 \<le> N" "N \<le> 9999"
  shows "calculate_temp (Finite e) D N = Some \<lfloor>transition_value e D N\<rfloor>"
proof -
  define s where "s = transition_value e D N"
  define x where "x = spec_interpolation e D N"
  have "\<bar>s - x\<bar> \<le> 1 / 500"
    unfolding s_def x_def using assms by (rule transition_value_error)
  moreover have "of_int 1000 \<le> x \<and> x \<le> of_int 9999"
    unfolding x_def using assms by (intro spec_interpolation_range) simp_all
  then have "1000 \<le> x" "x \<le> 9999" by simp_all
  ultimately have s: "999 \<le> s" "s < 10000" by linarith+
  then have "999 \<le> \<lfloor>s\<rfloor>" "\<lfloor>s\<rfloor> < 10000" by (simp_all add: le_floor_iff floor_less_iff)
  with s have "double_to_int s = Some \<lfloor>s\<rfloor>"
    by (simp add: double_to_int_def INT_MIN_def INT_MAX_def)
  then show ?thesis
    using assms(1,2)
    by (simp add: calculate_temp_def transition_value_def transition_a_def s_def Let_def)
qed

lemma calculate_temp_near_spec:
  assumes "TRANSITION_LOW \<le> e" "e \<le> TRANSITION_HIGH"
    and "1000 \<le> D" "D \<le> 9999" "1000 \<le> N" "N \<le> 9999"
  shows "\<exists>t. calculate_temp (Finite e) D N = Some t \<and>
           spec_interpolation e D N - 1 / 500 - 1 < of_int t \<and>
           of_int t \<le> spec_interpolation e D N + 1 / 500"
proof (cases "e < TRANSITION_HIGH")
  case True
  define s where "s = transition_value e D N"
  define x where "x = spec_interpolation e D N"
  have "\<bar>s - x\<bar> \<le> 1 / 500"
    unfolding s_def x_def using assms(1) True assms(3-) by (rule transition_value_error)
  moreover have "of_int \<lfloor>s\<rfloor> \<le> s" "s < of_int \<lfloor>s\<rfloor> + 1" by linarith+
  ultimately have "x - 1 / 500 - 1 < of_int \<lfloor>s\<rfloor> \<and> of_int \<lfloor>s\<rfloor> \<le> x + 1 / 500"
    by linarith
  then show ?thesis
    using calculate_temp_band [OF assms(1) True assms(3-)] by (simp add: s_def x_def)
next
  case False
  with assms have e: "e = TRANSITION_HIGH" by simp
  have "calculate_temp (Finite e) D N = Some D"
    unfolding e by (rule calculate_temp_day) simp
  then show ?thesis by (simp add: e spec_interpolation_high)
qed

text \<open>
  C1 (as stated: in the band the mapper returns \<open>round((1-a)*N + a*D)\<close>). At elevation 0.75,
  with day 1001 and night 1000, every operation of the source is exact: \<open>a = 0.75\<close> and
  the interpolated value is 1000.75. The conversion to \<^verbatim>\<open>int\<close> discards the fraction,
  so the mapper returns 1000, whereas rounding gives 1001.
\<close>

theorem calculate_temp_rounding_counterexample:
  "TRANSITION_LOW \<le> 3 / 4 \<and> 3 / 4 < TRANSITION_HIGH \<and>
   calculate_temp (Finite (3 / 4)) 1001 1000 = Some 1000 \<and>
   spec_fraction (3 / 4) = 3 / 4 \<and>
   spec_interpolation (3 / 4) 1001 1000 = 4003 / 4 \<and>
   spec_map_temperature (3 / 4) 1001 1000 = 1001"
  by code_simp


text \<open>
  C1 (amended). In the band, for temperatures in \<open>[1000, 9999]\<close>, the mapper returns the
  integer part of the floating-point value of \<open>(1-a)*N + a*D\<close>, with \<open>a\<close> rounded to single
  precision; that value is within 0.002 of the exact interpolation, so the result \<open>t\<close>
  satisfies \<open>x - 1.002 < t \<le> x + 0.002\<close> for the exact interpolation \<open>x\<close>. With day 5500,
  night 3700 and elevation -1.5 it returns exactly 4600.
\<close>

theorem calculate_temp_transition:
  assumes "TRANSITION_LOW \<le> e" "e < TRANSITION_HIGH"
    and "1000 \<le> D" "D \<le> 9999" "1000 \<le> N" "N \<le> 9999"
  shows "(\<exists>t. calculate_temp (Finite e) D N = Some t \<and>
              t = \<lfloor>transition_value e D N\<rfloor> \<and>
              \<bar>transition_value e D N - spec_interpolation e D N\<bar> \<le> 1 / 500 \<and>
              spec_interpolation e D N - 1 / 500 - 1 < of_int t \<and>
              of_int t \<le> spec_interpolation e D N + 1 / 500) \<and>
         calculate_temp (Finite (- 3 / 2)) 5500 3700 = Some 4600"
proof -
  have le: "e \<le> TRANSITION_HIGH" using assms(2) by simp
  obtain t where t: "calculate_temp (Finite e) D N = Some t"
    "spec_interpolation e D N - 1 / 500 - 1 < of_int t"
    "of_int t \<le> spec_interpolation e D N + 1 / 500"
    using calculate_temp_near_spec [OF assms(1) le assms(3-)] by blast
  have "t = \<lfloor>transition_value e D N\<rfloor>"
    using t(1) calculate_temp_band [OF assms] by simp
  moreover have "calculate_temp (Finite (- 3 / 2)) 5500 3700 = Some 4600"
    by code_simp
  ultimately show ?thesis
    using t transition_value_error [OF assms] by blast
qed

theorem calculate_temp_transition_witness:
  "TRANSITION_LOW \<le> - 3 / 2 \<and> - 3 / 2 < TRANSITION_HIGH \<and>
   (\<exists>t. calculate_temp (Finite (- 3 / 2)) 5500 3700 = Some t \<and>
        t = \<lfloor>transition_value (- 3 / 2) 5500 3700\<rfloor> \<and>
        \<bar>transition_value (- 3 / 2) 5500 3700 - spec_interpolation (- 3 / 2) 5500 3700\<bar>
           \<le> 1 / 500 \<and>
        spec_interpolation (- 3 / 2) 5500 3700 - 1 / 500 - 1 < of_int t \<and>
        of_int t \<le> spec_interpolation (- 3 / 2) 5500 3700 + 1 / 500)"
proof -
  have b: "TRANSITION_LOW \<le> - 3 / 2" "- 3 / 2 < TRANSITION_HIGH"
    by (simp_all add: TRANSITION_LOW_def TRANSITION_HIGH_def SOLAR_CIVIL_TWILIGHT_ELEV_def)
  have r: "(1000::int) \<le> 5500" "(5500::int) \<le> 9999" "(1000::int) \<le> 3700"
    "(3700::int) \<le> 9999"
    by simp_all
  show ?thesis
    using b calculate_temp_transition [OF b r] by blast
qed


text \<open>
  C4 (as stated: the result moves monotonically from \<open>N\<close> to \<open>D\<close> as the elevation
  rises). With day 9002 and night 9000 the mapper returns 9001 at elevation -1.5 and 9000 at
  the higher elevation \<open>-1.5 + 9/2\<^sup>2\<^sup>4\<close>: there \<open>a = 0.5 + 2\<^sup>-\<^sup>2\<^sup>4\<close> exactly, the
  single-precision product \<^verbatim>\<open>a*temp_day\<close> is rounded down to \<open>4501 + 2\<^sup>-\<^sup>1\<^sup>1\<close>, and the
  sum falls just below 9001.
\<close>

theorem calculate_temp_monotone_counterexample:
  "TRANSITION_LOW \<le> - 3 / 2 \<and> (- 3 / 2 :: rat) \<le> - 3 / 2 + 9 / 2 ^ 24 \<and>
   - 3 / 2 + 9 / 2 ^ 24 \<le> TRANSITION_HIGH \<and>
   calculate_temp (Finite (- 3 / 2)) 9002 9000 = Some 9001 \<and>
   calculate_temp (Finite (- 3 / 2 + 9 / 2 ^ 24)) 9002 9000 = Some 9000"
  by code_simp


text \<open>
  C4 (amended). For temperatures in \<open>[1000, 9999]\<close> and elevations \<open>e1 \<le> e2\<close> in
  \<open>[LOW, HIGH]\<close>, the result at \<open>e2\<close> is at most 1 K farther from the day temperature than
  the result at \<open>e1\<close>, and both results lie between the night temperature (less 1 K on
  the lower side) and the day temperature.
\<close>

theorem calculate_temp_monotone_within_one:
  assumes "TRANSITION_LOW \<le> e1" "e1 \<le> e2" "e2 \<le> TRANSITION_HIGH"
    and "1000 \<le> D" "D \<le> 9999" "1000 \<le> N" "N \<le> 9999"
  shows "\<exists>t1 t2. calculate_temp (Finite e1) D N = Some t1 \<and>
           calculate_temp (Finite e2) D N = Some t2 \<and>
           (N \<le> D \<longrightarrow> t1 \<le> t2 + 1 \<and> N - 1 \<le> t1 \<and> t1 \<le> D \<and> N - 1 \<le> t2 \<and> t2 \<le> D) \<and>
           (D \<le> N \<longrightarrow> t2 \<le> t1 + 1 \<and> D - 1 \<le> t1 \<and> t1 \<le> N \<and> D - 1 \<le> t2 \<and> t2 \<le> N)"
proof -
  have b1: "e1 \<le> TRANSITION_HIGH" and b2: "TRANSITION_LOW \<le> e2"
    using assms by simp_all
  define x1 where "x1 = spec_interpolation e1 D N"
  define x2 where "x2 = spec_interpolation e2 D N"
  obtain t1 where t1: "calculate_temp (Finite e1) D N = Some t1"
    "x1 - 1 / 500 - 1 < of_int t1" "of_int t1 \<le> x1 + 1 / 500"
    unfolding x1_def using calculate_temp_near_spec [OF assms(1) b1 assms(4-)] by blast
  obtain t2 where t2: "calculate_temp (Finite e2) D N = Some t2"
    "x2 - 1 / 500 - 1 < of_int t2" "of_int t2 \<le> x2 + 1 / 500"
    unfolding x2_def using calculate_temp_near_spec [OF b2 assms(3) assms(4-)] by blast
  have up: "t1 \<le> t2 + 1 \<and> N - 1 \<le> t1 \<and> t1 \<le> D \<and> N - 1 \<le> t2 \<and> t2 \<le> D" if "N \<le> D"
  proof -
    have "x1 \<le> x2" unfolding x1_def x2_def
      using spec_interpolation_mono(1) [OF assms(2) that] .
    moreover have "of_int N \<le> x1 \<and> x1 \<le> of_int D" unfolding x1_def
      using assms(1) b1 that by (intro spec_interpolation_range) simp_all
    moreover have "of_int N \<le> x2 \<and> x2 \<le> of_int D" unfolding x2_def
      using b2 assms(3) that by (intro spec_interpolation_range) simp_all
    ultimately have "(of_int t1 :: rat) < of_int t2 + 2"
      "(of_int N :: rat) - 2 < of_int t1" "(of_int t1 :: rat) < of_int D + 1"
      "(of_int N :: rat) - 2 < of_int t2" "(of_int t2 :: rat) < of_int D + 1"
      using t1 t2 by linarith+
    then have "(of_int t1 :: rat) < of_int (t2 + 2)"
      "(of_int (N - 2) :: rat) < of_int t1" "(of_int t1 :: rat) < of_int (D + 1)"
      "(of_int (N - 2) :: rat) < of_int t2" "(of_int t2 :: rat) < of_int (D + 1)"
      by simp_all
    then have "t1 < t2 + 2" "N - 2 < t1" "t1 < D + 1" "N - 2 < t2" "t2 < D + 1"
      by (simp_all only: of_int_less_iff)
    then show ?thesis by linarith
  qed
  have down: "t2 \<le> t1 + 1 \<and> D - 1 \<le> t1 \<and> t1 \<le> N \<and> D - 1 \<le> t2 \<and> t2 \<le> N" if "D \<le> N"
  proof -
    have "x2 \<le> x1" unfolding x1_def x2_def
      using spec_interpolation_mono(2) [OF assms(2) that] .
    moreover have "of_int D \<le> x1 \<and> x1 \<le> of_int N" unfolding x1_def
      using assms(1) b1 that by (intro spec_interpolation_range) simp_all
    moreover have "of_int D \<le> x2 \<and> x2 \<le> of_int N" unfolding x2_def
      using b2 assms(3) that by (intro spec_interpolation_range) simp_all
    ultimately have "(of_int t2 :: rat) < of_int t1 + 2"
      "(of_int D :: rat) - 2 < of_int t1" "(of_int t1 :: rat) < of_int N + 1"
      "(of_int D :: rat) - 2 < of_int t2" "(of_int t2 :: rat) < of_int N + 1"
      using t1 t2 by linarith+
    then have "(of_int t2 :: rat) < of_int (t1 + 2)"
      "(of_int (D - 2) :: rat) < of_int t1" "(of_int t1 :: rat) < of_int (N + 1)"
      "(of_int (D - 2) :: rat) < of_int t2" "(of_int t2 :: rat) < of_int (N + 1)"
      by simp_all
    then have "t2 < t1 + 2" "D - 2 < t1" "t1 < N + 1" "D - 2 < t2" "t2 < N + 1"
      by (simp_all only: of_int_less_iff)
    then show ?thesis by linarith
  qed
  show ?thesis using t1(1) t2(1) up down by blast
qed

theorem calculate_temp_monotone_within_one_witness:
  "TRANSITION_LOW \<le> - 3 / 2 \<and> (- 3 / 2 :: rat) \<le> - 3 / 2 + 9 / 2 ^ 24 \<and>
   - 3 / 2 + 9 / 2 ^ 24 \<le> TRANSITION_HIGH \<and> (9000::int) \<le> 9002 \<and>
   (\<exists>t1 t2. calculate_temp (Finite (- 3 / 2)) 9002 9000 = Some t1 \<and>
      calculate_temp (Finite (- 3 / 2 + 9 / 2 ^ 24)) 9002 9000 = Some t2 \<and>
      t1 \<le> t2 + 1 \<and> 9000 - 1 \<le> t1 \<and> t1 \<le> 9002 \<and> 9000 - 1 \<le> t2 \<and> t2 \<le> 9002)"
proof -
  have b: "TRANSITION_LOW \<le> - 3 / 2" "(- 3 / 2 :: rat) \<le> - 3 / 2 + 9 / 2 ^ 24"
    "- 3 / 2 + 9 / 2 ^ 24 \<le> TRANSITION_HIGH"
    by (simp_all add: TRANSITION_LOW_def TRANSITION_HIGH_def SOLAR_CIVIL_TWILIGHT_ELEV_def)
  have r: "(1000::int) \<le> 9002" "(9002::int) \<le> 9999" "(1000::int) \<le> 9000"
    "(9000::int) \<le> 9999"
    by simp_all
  have "(9000::int) \<le> 9002" by simp
  then show ?thesis
    using b calculate_temp_monotone_within_one [OF b r] by blast
qed


section \<open>One call of the backend layer\<close>

text \<open>
  C2 (as stated: a failed set-temperature attempt is fatal and no alternative backend is
  tried within the same call). In a build with both backends, with RANDR selected, a failing
  \<^verbatim>\<open>randr_set_temperature\<close> is followed by the VidMode calls in the same call of
  \<^verbatim>\<open>adjust_temperature\<close>, which then reports success.
\<close>

theorem adjust_temperature_fallback_counterexample:
  "randr_set_temperature randr_set_fails < 0 \<and>
   adjust_temperature both_backends randr_set_fails (- 1) 1 4600 (1, 1, 1) =
     (0, [RandrCheckExtension, RandrSetTemperature (- 1) 4600 (1, 1, 1),
          VidmodeCheckExtension, VidmodeSetTemperature (- 1) 4600 (1, 1, 1)])"
  by (simp add: adjust_temperature_def randr_stage_def vidmode_stage_def both_backends_def
      randr_set_fails_def)

text \<open>
  C2 (amended). Within one call of \<^verbatim>\<open>adjust_temperature\<close> no backend function is
  called twice (no retry); RANDR is tried when it is compiled in and selected; VidMode is
  tried when it is compiled in and either selected or reached as the fallback of a failed
  RANDR attempt; the call returns -1 exactly when the last backend it tried failed, and 0
  otherwise.
\<close>

theorem adjust_temperature_single_fallback:
  "case adjust_temperature b be s u t g of (r, calls) \<Rightarrow>
     distinct calls \<and>
     (randr_attempted calls \<longleftrightarrow> ENABLE_RANDR b \<and> u \<noteq> 0) \<and>
     (vidmode_attempted calls \<longleftrightarrow>
        ENABLE_VIDMODE b \<and> (u = 0 \<or> ENABLE_RANDR b \<and> randr_failed be)) \<and>
     (r = - 1 \<or> r = 0) \<and>
     (r = - 1 \<longleftrightarrow>
        (if vidmode_attempted calls then vidmode_failed be
         else randr_attempted calls \<and> randr_failed be))"
  by (simp add: adjust_temperature_def randr_stage_def vidmode_stage_def randr_failed_def
      vidmode_failed_def randr_attempted_def vidmode_attempted_def)

theorem adjust_temperature_single_fallback_witness:
  "adjust_temperature both_backends randr_set_fails (- 1) 1 4600 (1, 1, 1) =
     (0, [RandrCheckExtension, RandrSetTemperature (- 1) 4600 (1, 1, 1),
          VidmodeCheckExtension, VidmodeSetTemperature (- 1) 4600 (1, 1, 1)]) \<and>
   randr_attempted [RandrCheckExtension, RandrSetTemperature (- 1) 4600 (1, 1, 1),
          VidmodeCheckExtension, VidmodeSetTemperature (- 1) 4600 (1, 1, 1)] \<and>
   vidmode_attempted [RandrCheckExtension, RandrSetTemperature (- 1) 4600 (1, 1, 1),
          VidmodeCheckExtension, VidmodeSetTemperature (- 1) 4600 (1, 1, 1)] \<and>
   ENABLE_RANDR both_backends \<and> ENABLE_VIDMODE both_backends \<and>
   randr_failed randr_set_fails \<and> \<not> vidmode_failed randr_set_fails"
  using adjust_temperature_single_fallback
    [where b = both_backends and be = randr_set_fails and s = "- 1" and u = 1 and t = 4600
       and g = "(1, 1, 1)"]
  by (simp add: adjust_temperature_def randr_stage_def vidmode_stage_def both_backends_def
      randr_set_fails_def randr_failed_def vidmode_failed_def randr_attempted_def
      vidmode_attempted_def)

section \<open>One pass of the loop\<close>

lemma adjust_temperature_result:
  "adjust_temperature b be s u t g = (r, calls) \<Longrightarrow> r = 0 \<or> r = - 1"
  by (auto simp add: adjust_temperature_def randr_stage_def vidmode_stage_def
      split: if_splits)

text \<open>The shapes of one pass.\<close>

lemma iteration_cases:
  obtains
    (clock_failed) "clock_r (clock env) < 0"
      "iteration b se cfg ste it env = Exited EXIT_FAILURE []"
  | (undefined) "\<not> clock_r (clock env) < 0" "iteration b se cfg ste it env = Undef"
  | (apply_failed) temp0 temp it' calls r where "\<not> clock_r (clock env) < 0"
      "calculate_temp (se (clock_ts (clock env)) (lat cfg) (lon cfg)) (temp_day cfg)
         (temp_night cfg) = Some temp0"
      "initial_transition it (clock_ts (clock env)) ste temp0 = Some (it', temp)"
      "adjust_temperature b (backend env) (screen_num cfg) (use_randr cfg) temp (gamma cfg)
         = (r, calls)"
      "r < 0" "iteration b se cfg ste it env = Exited EXIT_FAILURE [Apply temp calls r]"
  | (continue) temp0 temp it' calls r where "\<not> clock_r (clock env) < 0"
      "calculate_temp (se (clock_ts (clock env)) (lat cfg) (lon cfg)) (temp_day cfg)
         (temp_night cfg) = Some temp0"
      "initial_transition it (clock_ts (clock env)) ste temp0 = Some (it', temp)"
      "adjust_temperature b (backend env) (screen_num cfg) (use_randr cfg) temp (gamma cfg)
         = (r, calls)"
      "\<not> r < 0"
      "iteration b se cfg ste it env =
         Continue it' [Apply temp calls r, Usleep (if it' \<noteq> 0 then 100000 else 5000000)]"
proof (cases "clock_r (clock env) < 0")
  case True
  then show ?thesis using clock_failed by (simp add: iteration_def)
next
  case c: False
  show ?thesis
  proof (cases "calculate_temp (se (clock_ts (clock env)) (lat cfg) (lon cfg))
      (temp_day cfg) (temp_night cfg)")
    case None
    then show ?thesis using c undefined by (simp add: iteration_def)
  next
    case t0: (Some temp0)
    show ?thesis
    proof (cases "initial_transition it (clock_ts (clock env)) ste temp0")
      case None
      then show ?thesis using c t0 undefined by (simp add: iteration_def)
    next
      case (Some p)
      obtain it' temp where p: "p = (it', temp)" by (cases p)
      obtain r calls where a: "adjust_temperature b (backend env) (screen_num cfg)
          (use_randr cfg) temp (gamma cfg) = (r, calls)"
        by (cases "adjust_temperature b (backend env) (screen_num cfg)
          (use_randr cfg) temp (gamma cfg)")
      show ?thesis
      proof (cases "r < 0")
        case True
        then show ?thesis
          using c t0 Some p a apply_failed by (simp add: iteration_def)
      next
        case False
        then show ?thesis
          using c t0 Some p a continue by (simp add: iteration_def)
      qed
    qed
  qed
qed


lemma continuous_loop_failure_last:
  "continuous_loop b se cfg ste it envs = (evs, out) \<Longrightarrow>
   evs = pre @ Apply t calls r # post \<Longrightarrow> r < 0 \<Longrightarrow>
   post = [] \<and> out = Exit EXIT_FAILURE"
proof (induction envs arbitrary: it evs pre)
  case Nil
  then show ?case by simp
next
  case (Cons env envs)
  show ?case
  proof (cases rule: iteration_cases [of env b se cfg ste it])
    case clock_failed
    with Cons.prems show ?thesis by simp
  next
    case undefined
    with Cons.prems show ?thesis by simp
  next
    case (apply_failed temp0 temp it' calls' r')
    with Cons.prems show ?thesis by (simp add: append_eq_Cons_conv Cons_eq_append_conv)
  next
    case (continue temp0 temp it' calls' r')
    obtain evs' where l: "continuous_loop b se cfg ste it' envs = (evs', out)"
      and e: "evs = Apply temp calls' r' #
                Usleep (if it' \<noteq> 0 then 100000 else 5000000) # evs'"
      using Cons.prems(1) continue(6) by (auto split: prod.splits)
    from e Cons.prems(2,3) continue(5) obtain pre' where
      "evs' = pre' @ Apply t calls r # post"
      by (cases pre; cases "tl pre") (auto simp add: Cons_eq_append_conv)
    from Cons.IH [OF l this Cons.prems(3)] show ?thesis .
  qed
qed

text \<open>
  C6. In continuous mode, an apply call that reports failure is the last thing the run does:
  whatever the environment answers afterwards, no event follows it in the trace, and the
  run has ended with the non-zero status \<^verbatim>\<open>EXIT_FAILURE\<close>.
\<close>

theorem backend_failure_halts:
  assumes "one_shot cfg = 0"
    and "main b se cfg c0 be envs = (evs, out)"
    and "evs = pre @ Apply t calls r # post" and "r < 0"
  shows "post = [] \<and> out = Exit EXIT_FAILURE \<and> EXIT_FAILURE \<noteq> 0"
proof -
  have m: "continuous_mode b se cfg c0 envs = (evs, out)"
    using assms(1,2) by (simp add: main_def)
  have "\<not> clock_r c0 < 0"
    using m assms(3) by (auto simp add: continuous_mode_def)
  with m have "continuous_loop b se cfg
      ((clock_ts c0)\<lparr>tv_sec := tv_sec (clock_ts c0) + short_trans_len\<rparr>)
      (init_trans cfg) envs = (evs, out)"
    by (simp add: continuous_mode_def Let_def)
  from continuous_loop_failure_last [OF this assms(3,4)]
  show ?thesis by (simp add: EXIT_FAILURE_def)
qed

theorem backend_failure_halts_witness:
  "one_shot sample_config = 0 \<and>
   main both_backends always_night sample_config (clock_at 0 0) backends_ok
     [env_at 3 0 backends_ok, env_at 4 0 backends_fail, env_at 5 0 backends_ok] =
     ([Apply 5660 [RandrCheckExtension, RandrSetTemperature (- 1) 5660 (1, 1, 1)] 0,
       Usleep 100000] @
      Apply 5380 [RandrCheckExtension, RandrSetTemperature (- 1) 5380 (1, 1, 1),
                  VidmodeCheckExtension, VidmodeSetTemperature (- 1) 5380 (1, 1, 1)] (- 1)
      # [], Exit EXIT_FAILURE) \<and>
   (- 1 :: int) < 0 \<and> EXIT_FAILURE \<noteq> 0"
proof -
  have c: "one_shot sample_config = 0" by (simp add: sample_config_def)
  have s: "main both_backends always_night sample_config (clock_at 0 0) backends_ok
     [env_at 3 0 backends_ok, env_at 4 0 backends_fail, env_at 5 0 backends_ok] =
     ([Apply 5660 [RandrCheckExtension, RandrSetTemperature (- 1) 5660 (1, 1, 1)] 0,
       Usleep 100000,
       Apply 5380 [RandrCheckExtension, RandrSetTemperature (- 1) 5380 (1, 1, 1),
                  VidmodeCheckExtension, VidmodeSetTemperature (- 1) 5380 (1, 1, 1)] (- 1)],
      Exit EXIT_FAILURE)"
    by code_simp
  have e: "[Apply 5660 [RandrCheckExtension, RandrSetTemperature (- 1) 5660 (1, 1, 1)] 0,
       Usleep 100000,
       Apply 5380 [RandrCheckExtension, RandrSetTemperature (- 1) 5380 (1, 1, 1),
                  VidmodeCheckExtension, VidmodeSetTemperature (- 1) 5380 (1, 1, 1)] (- 1)] =
      [Apply 5660 [RandrCheckExtension, RandrSetTemperature (- 1) 5660 (1, 1, 1)] 0,
       Usleep 100000] @
      Apply 5380 [RandrCheckExtension, RandrSetTemperature (- 1) 5380 (1, 1, 1),
                  VidmodeCheckExtension, VidmodeSetTemperature (- 1) 5380 (1, 1, 1)] (- 1)
      # []"
    by simp
  have n: "(- 1 :: int) < 0" by simp
  show ?thesis
    using c s n backend_failure_halts [OF c s e n] by simp
qed


section \<open>The startup ramp\<close>

lemma initial_transition_flag:
  "initial_transition it now ste temp0 = Some (it', temp) \<Longrightarrow>
   (it' \<noteq> 0 \<longleftrightarrow> ramp_active it now ste) \<and> (it' = 0 \<or> it' = it)"
  by (auto simp add: initial_transition_def ramp_active_def Let_def
      split: if_splits option.splits)

lemma initial_transition_steady:
  "\<not> ramp_active it now ste \<Longrightarrow> initial_transition it now ste temp = Some (0, temp)"
  by (auto simp add: initial_transition_def ramp_active_def Let_def)

lemma iteration_steady:
  assumes "\<not> ramp_active it (clock_ts (clock env)) ste"
  shows "iteration b se cfg ste it env = iteration b se cfg ste 0 env"
proof -
  have "\<not> ramp_active 0 (clock_ts (clock env)) ste" by (simp add: ramp_active_def)
  then have "initial_transition it (clock_ts (clock env)) ste =
      initial_transition 0 (clock_ts (clock env)) ste"
    using assms by (intro ext) (simp add: initial_transition_steady)
  then show ?thesis
    by (simp only: iteration_def Let_def)
qed

lemma continuous_loop_steady:
  "continuous_loop b se cfg ste 0 envs = steady_loop b se cfg envs"
proof (induction envs)
  case Nil
  show ?case by simp
next
  case (Cons env envs)
  have "\<not> ramp_active 0 (clock_ts (clock env)) ste" by (simp add: ramp_active_def)
  then have i: "initial_transition 0 (clock_ts (clock env)) ste temp = Some (0, temp)"
    for temp by (rule initial_transition_steady)
  show ?case
    by (simp add: iteration_def i Cons.IH split: option.splits prod.splits)
qed

lemma transition_alpha_neg_iff:
  "transition_alpha now ste < 0 \<longleftrightarrow> timespec_seconds ste < timespec_seconds now"
proof -
  have ten: "binary32 (of_int short_trans_len) = 10"
    using binary32_of_int [of 10] by (simp add: short_trans_len_def)
  have n: "binary64 y < 0 \<longleftrightarrow> y < 0" for y
    unfolding binary64_def by (rule fl_neg_iff) simp
  show ?thesis
    by (simp add: transition_alpha_def Let_def ten n)
qed

lemma ramp_active_iff:
  "ramp_active it now ste \<longleftrightarrow>
     it \<noteq> 0 \<and> \<not> timespec_seconds ste < timespec_seconds now"
  by (simp add: ramp_active_def transition_alpha_neg_iff)

lemma continuous_loop_ramp_over:
  assumes "\<not> ramp_active it (clock_ts (clock env)) ste"
  shows "continuous_loop b se cfg ste it (env # envs) = steady_loop b se cfg (env # envs)"
proof -
  have "continuous_loop b se cfg ste it (env # envs) =
      continuous_loop b se cfg ste 0 (env # envs)"
    by (simp only: continuous_loop.simps iteration_steady [OF assms])
  then show ?thesis by (simp only: continuous_loop_steady)
qed

text \<open>
  The \<^verbatim>\<open>double\<close> value of a clock reading is within \<open>4.8 \<times> 10\<^sup>-\<^sup>7\<close> s of the reading,
  so a reading at least a microsecond after the ramp end is found to be after it.
\<close>

lemma timespec_seconds_error:
  assumes "valid_timespec ts"
  shows "\<bar>timespec_seconds ts - (of_int (tv_sec ts) + of_int (tv_nsec ts) / 1000000000)\<bar>
           \<le> 4294967300 / 9007199254740992"
proof -
  define S :: rat where "S = of_int (tv_sec ts)"
  define n :: rat where "n = of_int (tv_nsec ts)"
  define q where "q = binary64 (n / 1000000000)"
  define s where "s = binary64 (S + q)"
  have v: "0 \<le> tv_sec ts" "tv_sec ts < 4294967296" "0 \<le> tv_nsec ts"
    "tv_nsec ts < 1000000000"
    using assms by (simp_all add: valid_timespec_def)
  have Sb: "0 \<le> S" "S \<le> 4294967296" using v by (simp_all add: S_def)
  have nb: "0 \<le> n" "n \<le> 1000000000" using v by (simp_all add: n_def)
  have S: "binary64 (of_int (tv_sec ts)) = S"
    unfolding S_def using v by (intro binary64_of_int) simp
  have n: "binary64 (of_int (tv_nsec ts)) = n"
    unfolding n_def using v by (intro binary64_of_int) simp
  have g: "binary64 1000000000 = 1000000000"
    using binary64_of_int [of 1000000000] by simp
  have s: "timespec_seconds ts = s"
    by (simp add: timespec_seconds_def s_def q_def S n g)
  define f where "f = n / 1000000000"
  have fb: "0 \<le> f" "f \<le> 1" using nb by (simp_all add: f_def)
  then have "\<bar>f\<bar> \<le> 1" by simp
  then have q: "\<bar>q - f\<bar> \<le> 1 / 9007199254740992"
    unfolding q_def f_def by (rule binary64_err)
  then have "\<bar>S + q\<bar> \<le> 4294967298" using Sb fb by linarith
  then have "\<bar>s - (S + q)\<bar> \<le> 4294967298 / 9007199254740992"
    unfolding s_def by (rule binary64_err)
  with q have "\<bar>s - (S + f)\<bar> \<le> 4294967300 / 9007199254740992" by linarith
  then show ?thesis unfolding s S_def n_def f_def .
qed

lemma transition_alpha_neg_elapsed:
  assumes "valid_timespec now" "valid_timespec ste" "1000 \<le> elapsed_ns ste now"
  shows "transition_alpha now ste < 0"
proof -
  define tn where "tn = of_int (tv_sec now) + of_int (tv_nsec now) / (1000000000 :: rat)"
  define te where "te = of_int (tv_sec ste) + of_int (tv_nsec ste) / (1000000000 :: rat)"
  have n: "\<bar>timespec_seconds now - tn\<bar> \<le> 4294967300 / 9007199254740992"
    unfolding tn_def using assms(1) by (rule timespec_seconds_error)
  have e: "\<bar>timespec_seconds ste - te\<bar> \<le> 4294967300 / 9007199254740992"
    unfolding te_def using assms(2) by (rule timespec_seconds_error)
  have "(of_int 1000 :: rat) \<le> of_int (elapsed_ns ste now)"
    using assms(3) by (simp only: of_int_le_iff)
  then have "(1000 :: rat) \<le> 1000000000 * (tn - te)"
    by (simp add: elapsed_ns_def tn_def te_def algebra_simps)
  then have "1000 / 1000000000 \<le> tn - te"
    by (subst pos_divide_le_eq) (simp_all add: mult.commute)
  then have "1 / 1000000 \<le> tn - te" by simp
  with n e have "timespec_seconds ste < timespec_seconds now" by linarith
  then show ?thesis by (simp only: transition_alpha_neg_iff)
qed

text \<open>
  C8 (as stated: once the elapsed time exceeds the 10 second ramp, the scheduler is in
  STEADY). The scheduler starts at the epoch second 1699999990; the first pass reads the
  clock 10 s and 1 ns after the start. Values of type \<^verbatim>\<open>double\<close> of that size are
  \<open>2\<^sup>-\<^sup>2\<^sup>2\<close> s apart, so the reading \<open>1700000000 + 10\<^sup>-\<^sup>9\<close> rounds to
  \<open>1700000000\<close>, which is the ramp end: \<^verbatim>\<open>alpha\<close> is 0, not negative,
  \<^verbatim>\<open>init_trans\<close> stays set and the pass sleeps 100 ms.
\<close>

theorem ramp_end_unnoticed_counterexample:
  "elapsed_ns (clock_ts (clock_at 1699999990 0))
     (clock_ts (clock (env_at 1700000000 1 backends_ok))) = 10000000001 \<and>
   transition_alpha (clock_ts (clock (env_at 1700000000 1 backends_ok)))
     \<lparr>tv_sec = 1700000000, tv_nsec = 0\<rparr> = 0 \<and>
   main both_backends always_night sample_config (clock_at 1699999990 0) backends_ok
     [env_at 1700000000 1 backends_ok] =
     ([Apply 3700 [RandrCheckExtension, RandrSetTemperature (- 1) 3700 (1, 1, 1)] 0,
       Usleep 100000], Running 1)"
  by code_simp

text \<open>
  C8 (amended). From a pass on that starts with \<^verbatim>\<open>init_trans\<close> cleared, or that reads a
  time whose value in \<^verbatim>\<open>double\<close> seconds is later than that of the ramp end, the loop
  behaves as the STEADY loop for the rest of the run, whatever the clock reads later. A pass
  reads such a time whenever its reading is at least 10 s and 1 microsecond after the start
  of the scheduler. With the initial transition disabled the continuous scheduler is the
  STEADY loop from its first pass.
\<close>

theorem ramp_deactivates_permanently:
  "(it = 0 \<or> timespec_seconds ste < timespec_seconds (clock_ts (clock env)) \<longrightarrow>
      continuous_loop b se cfg ste it (env # envs) = steady_loop b se cfg (env # envs)) \<and>
   (valid_timespec start \<and> valid_timespec (clock_ts (clock env)) \<and>
    tv_sec start + short_trans_len < 4294967296 \<and>
    10000001000 \<le> elapsed_ns start (clock_ts (clock env)) \<longrightarrow>
      continuous_loop b se cfg (start\<lparr>tv_sec := tv_sec start + short_trans_len\<rparr>) it
        (env # envs) = steady_loop b se cfg (env # envs)) \<and>
   (init_trans cfg = 0 \<and> one_shot cfg = 0 \<and> \<not> clock_r c0 < 0 \<longrightarrow>
      main b se cfg c0 be envs = steady_loop b se cfg envs)"
proof (intro conjI impI)
  assume "it = 0 \<or> timespec_seconds ste < timespec_seconds (clock_ts (clock env))"
  then have "\<not> ramp_active it (clock_ts (clock env)) ste"
    by (auto simp add: ramp_active_iff)
  then show "continuous_loop b se cfg ste it (env # envs) = steady_loop b se cfg (env # envs)"
    by (rule continuous_loop_ramp_over)
next
  define ste where "ste = start\<lparr>tv_sec := tv_sec start + short_trans_len\<rparr>"
  assume "valid_timespec start \<and> valid_timespec (clock_ts (clock env)) \<and>
    tv_sec start + short_trans_len < 4294967296 \<and>
    10000001000 \<le> elapsed_ns start (clock_ts (clock env))"
  then have v: "valid_timespec start" "valid_timespec (clock_ts (clock env))"
    and b: "tv_sec start + short_trans_len < 4294967296"
    and e: "10000001000 \<le> elapsed_ns start (clock_ts (clock env))"
    by simp_all
  have "valid_timespec ste"
    using v(1) b by (simp add: ste_def valid_timespec_def short_trans_len_def)
  moreover have "1000 \<le> elapsed_ns ste (clock_ts (clock env))"
    using e by (simp add: ste_def elapsed_ns_def short_trans_len_def)
  ultimately have "transition_alpha (clock_ts (clock env)) ste < 0"
    using v(2) by (intro transition_alpha_neg_elapsed)
  then have "\<not> ramp_active it (clock_ts (clock env)) ste"
    by (simp add: ramp_active_def)
  then show "continuous_loop b se cfg (start\<lparr>tv_sec := tv_sec start + short_trans_len\<rparr>) it
      (env # envs) = steady_loop b se cfg (env # envs)"
    unfolding ste_def [symmetric] by (rule continuous_loop_ramp_over)
next
  assume "init_trans cfg = 0 \<and> one_shot cfg = 0 \<and> \<not> clock_r c0 < 0"
  then show "main b se cfg c0 be envs = steady_loop b se cfg envs"
    by (simp add: main_def continuous_mode_def Let_def continuous_loop_steady)
qed

theorem ramp_deactivates_permanently_witness:
  "timespec_seconds \<lparr>tv_sec = 10, tv_nsec = 0\<rparr> <
     timespec_seconds (clock_ts (clock (env_at 10 100000000 backends_ok))) \<and>
   continuous_loop both_backends always_night sample_config \<lparr>tv_sec = 10, tv_nsec = 0\<rparr> 1
     [env_at 10 100000000 backends_ok, env_at 9 0 backends_ok] =
     ([Apply 3700 [RandrCheckExtension, RandrSetTemperature (- 1) 3700 (1, 1, 1)] 0,
       Usleep 5000000,
       Apply 3700 [RandrCheckExtension, RandrSetTemperature (- 1) 3700 (1, 1, 1)] 0,
       Usleep 5000000], Running 0) \<and>
   valid_timespec \<lparr>tv_sec = 1699999990, tv_nsec = 0\<rparr> \<and>
   valid_timespec (clock_ts (clock (env_at 1700000000 1000 backends_ok))) \<and>
   tv_sec \<lparr>tv_sec = 1699999990, tv_nsec = 0\<rparr> + short_trans_len < 4294967296 \<and>
   10000001000 \<le> elapsed_ns \<lparr>tv_sec = 1699999990, tv_nsec = 0\<rparr>
     (clock_ts (clock (env_at 1700000000 1000 backends_ok))) \<and>
   continuous_loop both_backends always_night sample_config
     (\<lparr>tv_sec = 1699999990, tv_nsec = 0\<rparr>
        \<lparr>tv_sec := tv_sec \<lparr>tv_sec = 1699999990, tv_nsec = 0\<rparr> + short_trans_len\<rparr>) 1
     [env_at 1700000000 1000 backends_ok, env_at 1699999995 0 backends_ok] =
     ([Apply 3700 [RandrCheckExtension, RandrSetTemperature (- 1) 3700 (1, 1, 1)] 0,
       Usleep 5000000,
       Apply 3700 [RandrCheckExtension, RandrSetTemperature (- 1) 3700 (1, 1, 1)] 0,
       Usleep 5000000], Running 0) \<and>
   init_trans (sample_config\<lparr>init_trans := 0\<rparr>) = 0 \<and>
   one_shot (sample_config\<lparr>init_trans := 0\<rparr>) = 0 \<and> \<not> clock_r (clock_at 0 0) < 0 \<and>
   main both_backends always_night (sample_config\<lparr>init_trans := 0\<rparr>) (clock_at 0 0)
     backends_ok [env_at 3 0 backends_ok] =
     ([Apply 3700 [RandrCheckExtension, RandrSetTemperature (- 1) 3700 (1, 1, 1)] 0,
       Usleep 5000000], Running 0)"
proof -
  have h1: "timespec_seconds \<lparr>tv_sec = 10, tv_nsec = 0\<rparr> <
     timespec_seconds (clock_ts (clock (env_at 10 100000000 backends_ok)))"
    by code_simp
  have h2: "valid_timespec \<lparr>tv_sec = 1699999990, tv_nsec = 0\<rparr> \<and>
     valid_timespec (clock_ts (clock (env_at 1700000000 1000 backends_ok))) \<and>
     tv_sec \<lparr>tv_sec = 1699999990, tv_nsec = 0\<rparr> + short_trans_len < 4294967296 \<and>
     10000001000 \<le> elapsed_ns \<lparr>tv_sec = 1699999990, tv_nsec = 0\<rparr>
       (clock_ts (clock (env_at 1700000000 1000 backends_ok)))"
    by (simp add: valid_timespec_def env_at_def clock_at_def short_trans_len_def
        elapsed_ns_def)
  have h3: "init_trans (sample_config\<lparr>init_trans := 0\<rparr>) = 0 \<and>
     one_shot (sample_config\<lparr>init_trans := 0\<rparr>) = 0 \<and> \<not> clock_r (clock_at 0 0) < 0"
    by (simp add: sample_config_def clock_at_def)
  have s1: "steady_loop both_backends always_night sample_config
     [env_at 10 100000000 backends_ok, env_at 9 0 backends_ok] =
     ([Apply 3700 [RandrCheckExtension, RandrSetTemperature (- 1) 3700 (1, 1, 1)] 0,
       Usleep 5000000,
       Apply 3700 [RandrCheckExtension, RandrSetTemperature (- 1) 3700 (1, 1, 1)] 0,
       Usleep 5000000], Running 0)"
    by code_simp
  have s2: "steady_loop both_backends always_night sample_config
     [env_at 1700000000 1000 backends_ok, env_at 1699999995 0 backends_ok] =
     ([Apply 3700 [RandrCheckExtension, RandrSetTemperature (- 1) 3700 (1, 1, 1)] 0,
       Usleep 5000000,
       Apply 3700 [RandrCheckExtension, RandrSetTemperature (- 1) 3700 (1, 1, 1)] 0,
       Usleep 5000000], Running 0)"
    by code_simp
  have s3: "steady_loop both_backends always_night (sample_config\<lparr>init_trans := 0\<rparr>)
     [env_at 3 0 backends_ok] =
     ([Apply 3700 [RandrCheckExtension, RandrSetTemperature (- 1) 3700 (1, 1, 1)] 0,
       Usleep 5000000], Running 0)"
    by code_simp
  show ?thesis
    using h1 h2 h3 s1 s2 s3
      ramp_deactivates_permanently [where it = 1 and ste = "\<lparr>tv_sec = 10, tv_nsec = 0\<rparr>"
        and env = "env_at 10 100000000 backends_ok" and envs = "[env_at 9 0 backends_ok]"
        and b = both_backends and se = always_night and cfg = sample_config]
      ramp_deactivates_permanently [where it = 1
        and start = "\<lparr>tv_sec = 1699999990, tv_nsec = 0\<rparr>"
        and env = "env_at 1700000000 1000 backends_ok"
        and envs = "[env_at 1699999995 0 backends_ok]"
        and b = both_backends and se = always_night and cfg = sample_config]
      ramp_deactivates_permanently [where cfg = "sample_config\<lparr>init_trans := 0\<rparr>"
        and ?c0.0 = "clock_at 0 0" and b = both_backends and se = always_night
        and be = backends_ok and envs = "[env_at 3 0 backends_ok]"]
    by simp
qed


section \<open>The polling interval\<close>

text \<open>
  The \<^verbatim>\<open>double\<close> value of a clock reading does not decrease when the reading grows,
  so a reading that is not after the ramp end is not found to be after it.
\<close>

lemma binary64_mono: "0 \<le> x \<Longrightarrow> x \<le> y \<Longrightarrow> binary64 x \<le> binary64 y"
  unfolding binary64_def by (rule fl_mono_nonneg) simp_all

lemma timespec_seconds_mono:
  assumes "valid_timespec ts1" "valid_timespec ts2" "0 \<le> elapsed_ns ts1 ts2"
  shows "timespec_seconds ts1 \<le> timespec_seconds ts2"
proof -
  define S1 :: rat where "S1 = of_int (tv_sec ts1)"
  define S2 :: rat where "S2 = of_int (tv_sec ts2)"
  define q1 where "q1 = binary64 (of_int (tv_nsec ts1) / 1000000000)"
  define q2 where "q2 = binary64 (of_int (tv_nsec ts2) / 1000000000)"
  have v1: "0 \<le> tv_sec ts1" "tv_sec ts1 < 4294967296" "0 \<le> tv_nsec ts1"
    "tv_nsec ts1 < 1000000000"
    using assms(1) by (simp_all add: valid_timespec_def)
  have v2: "0 \<le> tv_sec ts2" "tv_sec ts2 < 4294967296" "0 \<le> tv_nsec ts2"
    "tv_nsec ts2 < 1000000000"
    using assms(2) by (simp_all add: valid_timespec_def)
  have g: "binary64 1000000000 = 1000000000"
    using binary64_of_int [of 1000000000] by simp
  have t1: "timespec_seconds ts1 = binary64 (S1 + q1)"
    using v1 by (simp add: timespec_seconds_def S1_def q1_def g binary64_of_int)
  have t2: "timespec_seconds ts2 = binary64 (S2 + q2)"
    using v2 by (simp add: timespec_seconds_def S2_def q2_def g binary64_of_int)
  have q1: "0 \<le> q1" "q1 \<le> 1"
  proof -
    have "binary64 0 \<le> q1" unfolding q1_def using v1 by (intro binary64_mono) simp_all
    then show "0 \<le> q1" by (simp add: binary64_0)
    have "q1 \<le> binary64 1" unfolding q1_def using v1 by (intro binary64_mono) simp_all
    then show "q1 \<le> 1" by (simp add: binary64_1)
  qed
  have q2: "0 \<le> q2"
  proof -
    have "binary64 0 \<le> q2" unfolding q2_def using v2 by (intro binary64_mono) simp_all
    then show ?thesis by (simp add: binary64_0)
  qed
  have S1: "0 \<le> S1" using v1 by (simp add: S1_def)
  have "S1 + q1 \<le> S2 + q2"
  proof (cases "tv_sec ts1 = tv_sec ts2")
    case True
    with assms(3) have "tv_nsec ts1 \<le> tv_nsec ts2" by (simp add: elapsed_ns_def)
    then have "(of_int (tv_nsec ts1) :: rat) / 1000000000 \<le> of_int (tv_nsec ts2) / 1000000000"
      by (simp add: divide_right_mono)
    then have "q1 \<le> q2" unfolding q1_def q2_def using v1 by (intro binary64_mono) simp_all
    then show ?thesis using True by (simp add: S1_def S2_def)
  next
    case False
    have "tv_sec ts1 < tv_sec ts2"
    proof (rule ccontr)
      assume "\<not> tv_sec ts1 < tv_sec ts2"
      with False have "tv_sec ts2 - tv_sec ts1 \<le> - 1" by simp
      then have "(tv_sec ts2 - tv_sec ts1) * 1000000000 \<le> - 1000000000" by simp
      with v1 v2 have "elapsed_ns ts1 ts2 < 0" by (simp add: elapsed_ns_def)
      with assms(3) show False by simp
    qed
    then have "tv_sec ts1 + 1 \<le> tv_sec ts2" by simp
    then have "(of_int (tv_sec ts1 + 1) :: rat) \<le> of_int (tv_sec ts2)"
      by (simp only: of_int_le_iff)
    then have "S1 + 1 \<le> S2" by (simp add: S1_def S2_def)
    with q1 q2 show ?thesis by linarith
  qed
  moreover have "0 \<le> S1 + q1" using S1 q1 by simp
  ultimately show ?thesis unfolding t1 t2 by (intro binary64_mono)
qed

lemma ramp_not_over_elapsed:
  assumes "valid_timespec now" "valid_timespec ste" "0 \<le> elapsed_ns now ste"
  shows "\<not> timespec_seconds ste < timespec_seconds now"
  using timespec_seconds_mono [OF assms] by simp

text \<open>
  In a run of the loop every pass that goes on sleeps once, and the sleep of the \<open>i\<close>-th
  pass is 100 ms exactly when \<^verbatim>\<open>init_trans\<close> was set at the start and no pass up to the
  \<open>i\<close>-th has found the ramp end passed.
\<close>

lemma continuous_loop_sleeps_length:
  "continuous_loop b se cfg ste it envs = (evs, out) \<Longrightarrow>
   length (sleeps evs) \<le> length envs \<and>
   (\<forall>it'. out = Running it' \<longrightarrow> length (sleeps evs) = length envs)"
proof (induction envs arbitrary: it evs)
  case Nil
  then show ?case by simp
next
  case (Cons env envs)
  show ?case
  proof (cases rule: iteration_cases [of env b se cfg ste it])
    case clock_failed
    with Cons.prems show ?thesis by auto
  next
    case undefined
    with Cons.prems show ?thesis by auto
  next
    case (apply_failed temp0 temp it' calls r)
    with Cons.prems show ?thesis by auto
  next
    case (continue temp0 temp it' calls r)
    obtain evs' where l: "continuous_loop b se cfg ste it' envs = (evs', out)"
      and e: "evs = Apply temp calls r #
                Usleep (if it' \<noteq> 0 then 100000 else 5000000) # evs'"
      using Cons.prems continue(6) by (auto split: prod.splits)
    from Cons.IH [OF l] show ?thesis by (simp add: e)
  qed
qed

lemma continuous_loop_sleeps_nth:
  "continuous_loop b se cfg ste it envs = (evs, out) \<Longrightarrow> i < length (sleeps evs) \<Longrightarrow>
   sleeps evs ! i =
     (if it \<noteq> 0 \<and>
         (\<forall>j\<le>i. \<not> timespec_seconds ste < timespec_seconds (clock_ts (clock (envs ! j))))
      then 100000 else 5000000)"
proof (induction envs arbitrary: it evs i)
  case Nil
  then show ?case by simp
next
  case (Cons env envs)
  show ?case
  proof (cases rule: iteration_cases [of env b se cfg ste it])
    case clock_failed
    with Cons.prems show ?thesis by auto
  next
    case undefined
    with Cons.prems show ?thesis by auto
  next
    case (apply_failed temp0 temp it' calls r)
    with Cons.prems show ?thesis by auto
  next
    case (continue temp0 temp it' calls r)
    obtain evs' where l: "continuous_loop b se cfg ste it' envs = (evs', out)"
      and e: "evs = Apply temp calls r #
                Usleep (if it' \<noteq> 0 then 100000 else 5000000) # evs'"
      using Cons.prems(1) continue(6) by (auto split: prod.splits)
    have f: "it' \<noteq> 0 \<longleftrightarrow>
        it \<noteq> 0 \<and> \<not> timespec_seconds ste < timespec_seconds (clock_ts (clock env))"
      using initial_transition_flag [OF continue(3)] by (simp add: ramp_active_iff)
    show ?thesis
    proof (cases i)
      case 0
      then show ?thesis using f by (simp add: e)
    next
      case (Suc k)
      then have k: "k < length (sleeps evs')" using Cons.prems(2) by (simp add: e)
      have a: "(\<forall>j\<le>Suc k. P ((env # envs) ! j)) \<longleftrightarrow> P env \<and> (\<forall>j\<le>k. P (envs ! j))"
        for P :: "iter_env \<Rightarrow> bool"
      proof
        assume h: "\<forall>j\<le>Suc k. P ((env # envs) ! j)"
        from h have "P ((env # envs) ! 0)" by blast
        moreover have "P (envs ! j)" if "j \<le> k" for j
          using h [rule_format, of "Suc j"] that by simp
        ultimately show "P env \<and> (\<forall>j\<le>k. P (envs ! j))" by simp
      next
        assume h: "P env \<and> (\<forall>j\<le>k. P (envs ! j))"
        show "\<forall>j\<le>Suc k. P ((env # envs) ! j)"
        proof (intro allI impI)
          fix j assume "j \<le> Suc k"
          then show "P ((env # envs) ! j)" using h by (cases j) simp_all
        qed
      qed
      show ?thesis
        using Cons.IH [OF l k] f
        by (simp add: e Suc a
            [of "\<lambda>x. \<not> timespec_seconds ste < timespec_seconds (clock_ts (clock x))"])
    qed
  qed
qed

text \<open>
  C7 (as stated: 100 ms on every pass in which the ramp is still active, 5 s on every pass in
  which it is not). The scheduler starts at 1700000000 s and 250 ns; its second pass reads
  the clock 10 s and 50 ns after the start, when the 10 s ramp is over. Both the reading
  and the ramp end round to the same \<^verbatim>\<open>double\<close>, \<^verbatim>\<open>init_trans\<close> stays set, and the
  pass sleeps 100 ms, not 5 s.
\<close>

theorem sleep_after_ramp_end_counterexample:
  "init_trans sample_config \<noteq> 0 \<and>
   10000000000 < elapsed_ns (clock_ts (clock_at 1700000000 250))
     (reading [env_at 1700000003 250 backends_ok, env_at 1700000010 300 backends_ok] 1) \<and>
   main both_backends always_night sample_config (clock_at 1700000000 250) backends_ok
     [env_at 1700000003 250 backends_ok, env_at 1700000010 300 backends_ok] =
     ([Apply 5660 [RandrCheckExtension, RandrSetTemperature (- 1) 5660 (1, 1, 1)] 0,
       Usleep 100000,
       Apply 3700 [RandrCheckExtension, RandrSetTemperature (- 1) 3700 (1, 1, 1)] 0,
       Usleep 100000], Running 1)"
  by code_simp

text \<open>
  C7 (amended). In continuous mode, when the run is still going every pass has slept once,
  for 100 ms or for 5 s. A pass sleeps 100 ms exactly when the initial transition is enabled
  and no pass so far, this one included, has read a time whose value in \<^verbatim>\<open>double\<close>
  seconds is later than that of the ramp end. Hence it sleeps 100 ms as long as every reading
  so far is at most 10 s after the start, and 5 s from the first reading that is at least
  10 s and 1 microsecond after the start, whatever the clock reads later; with the initial
  transition disabled every pass sleeps 5 s.
\<close>

theorem continuous_sleep_intervals:
  assumes "one_shot cfg = 0" and "main b se cfg c0 be envs = (evs, out)"
  shows "(\<forall>it'. out = Running it' \<longrightarrow> length (sleeps evs) = length envs) \<and>
    (\<forall>i<length (sleeps evs).
       i < length envs \<and>
       (sleeps evs ! i = 100000 \<or> sleeps evs ! i = 5000000) \<and>
       (sleeps evs ! i = 100000 \<longleftrightarrow>
          init_trans cfg \<noteq> 0 \<and>
          (\<forall>j\<le>i. \<not> timespec_seconds (ramp_end (clock_ts c0)) <
                      timespec_seconds (reading envs j))) \<and>
       (init_trans cfg = 0 \<longrightarrow> sleeps evs ! i = 5000000) \<and>
       (valid_timespec (clock_ts c0) \<and> tv_sec (clock_ts c0) + short_trans_len < 4294967296 \<and>
        (\<forall>j\<le>i. valid_timespec (reading envs j)) \<longrightarrow>
          (init_trans cfg \<noteq> 0 \<and>
           (\<forall>j\<le>i. elapsed_ns (clock_ts c0) (reading envs j) \<le> 10000000000) \<longrightarrow>
             sleeps evs ! i = 100000) \<and>
          ((\<exists>j\<le>i. 10000001000 \<le> elapsed_ns (clock_ts c0) (reading envs j)) \<longrightarrow>
             sleeps evs ! i = 5000000)))"
proof (cases "clock_r c0 < 0")
  case True
  then have "evs = []" "out = Exit EXIT_FAILURE"
    using assms by (simp_all add: main_def continuous_mode_def)
  then show ?thesis by simp
next
  case False
  define ste where "ste = ramp_end (clock_ts c0)"
  have l: "continuous_loop b se cfg ste (init_trans cfg) envs = (evs, out)"
    using assms False by (simp add: main_def continuous_mode_def Let_def ste_def ramp_end_def)
  have len: "length (sleeps evs) \<le> length envs"
    "\<forall>it'. out = Running it' \<longrightarrow> length (sleeps evs) = length envs"
    using continuous_loop_sleeps_length [OF l] by simp_all
  have "i < length envs \<and>
       (sleeps evs ! i = 100000 \<or> sleeps evs ! i = 5000000) \<and>
       (sleeps evs ! i = 100000 \<longleftrightarrow>
          init_trans cfg \<noteq> 0 \<and>
          (\<forall>j\<le>i. \<not> timespec_seconds ste < timespec_seconds (reading envs j))) \<and>
       (init_trans cfg = 0 \<longrightarrow> sleeps evs ! i = 5000000) \<and>
       (valid_timespec (clock_ts c0) \<and> tv_sec (clock_ts c0) + short_trans_len < 4294967296 \<and>
        (\<forall>j\<le>i. valid_timespec (reading envs j)) \<longrightarrow>
          (init_trans cfg \<noteq> 0 \<and>
           (\<forall>j\<le>i. elapsed_ns (clock_ts c0) (reading envs j) \<le> 10000000000) \<longrightarrow>
             sleeps evs ! i = 100000) \<and>
          ((\<exists>j\<le>i. 10000001000 \<le> elapsed_ns (clock_ts c0) (reading envs j)) \<longrightarrow>
             sleeps evs ! i = 5000000))"
    if i: "i < length (sleeps evs)" for i
  proof -
    have n: "sleeps evs ! i =
        (if init_trans cfg \<noteq> 0 \<and>
            (\<forall>j\<le>i. \<not> timespec_seconds ste < timespec_seconds (reading envs j))
         then 100000 else 5000000)"
      using continuous_loop_sleeps_nth [OF l i] by (simp add: reading_def)
    have e: "sleeps evs ! i = 100000 \<longleftrightarrow>
          init_trans cfg \<noteq> 0 \<and>
          (\<forall>j\<le>i. \<not> timespec_seconds ste < timespec_seconds (reading envs j))"
      unfolding n by simp
    have v: "(sleeps evs ! i = 100000 \<or> sleeps evs ! i = 5000000)"
      unfolding n by simp
    have z: "init_trans cfg = 0 \<longrightarrow> sleeps evs ! i = 5000000"
      unfolding n by simp
    have t: "(init_trans cfg \<noteq> 0 \<and>
           (\<forall>j\<le>i. elapsed_ns (clock_ts c0) (reading envs j) \<le> 10000000000) \<longrightarrow>
             sleeps evs ! i = 100000) \<and>
          ((\<exists>j\<le>i. 10000001000 \<le> elapsed_ns (clock_ts c0) (reading envs j)) \<longrightarrow>
             sleeps evs ! i = 5000000)"
      if val: "valid_timespec (clock_ts c0) \<and>
        tv_sec (clock_ts c0) + short_trans_len < 4294967296 \<and>
        (\<forall>j\<le>i. valid_timespec (reading envs j))"
    proof -
      have vs: "valid_timespec ste"
        using val by (simp add: ste_def ramp_end_def valid_timespec_def short_trans_len_def)
      have el: "elapsed_ns now ste = 10000000000 - elapsed_ns (clock_ts c0) now" for now
        by (simp add: ste_def ramp_end_def elapsed_ns_def short_trans_len_def)
      have el': "elapsed_ns ste now = elapsed_ns (clock_ts c0) now - 10000000000" for now
        by (simp add: ste_def ramp_end_def elapsed_ns_def short_trans_len_def)
      have a: "sleeps evs ! i = 100000"
        if on: "init_trans cfg \<noteq> 0"
          and early: "\<forall>j\<le>i. elapsed_ns (clock_ts c0) (reading envs j) \<le> 10000000000"
      proof -
        have "\<not> timespec_seconds ste < timespec_seconds (reading envs j)"
          if ji: "j \<le> i" for j
        proof (rule ramp_not_over_elapsed)
          show "valid_timespec (reading envs j)" using val ji by simp
          show "valid_timespec ste" by (rule vs)
          show "0 \<le> elapsed_ns (reading envs j) ste"
            using early ji by (simp add: el)
        qed
        then show ?thesis using on by (simp add: e)
      qed
      have b: "sleeps evs ! i = 5000000"
        if "\<exists>j\<le>i. 10000001000 \<le> elapsed_ns (clock_ts c0) (reading envs j)"
      proof -
        from that obtain j where j: "j \<le> i"
          "10000001000 \<le> elapsed_ns (clock_ts c0) (reading envs j)" by blast
        have "transition_alpha (reading envs j) ste < 0"
        proof (rule transition_alpha_neg_elapsed)
          show "valid_timespec (reading envs j)" using val j(1) by simp
          show "valid_timespec ste" by (rule vs)
          show "1000 \<le> elapsed_ns ste (reading envs j)" using j(2) by (simp add: el')
        qed
        then have "timespec_seconds ste < timespec_seconds (reading envs j)"
          by (simp only: transition_alpha_neg_iff)
        with j(1) have "\<not> (\<forall>j\<le>i. \<not> timespec_seconds ste < timespec_seconds (reading envs j))"
          by blast
        then show ?thesis unfolding n by simp
      qed
      show ?thesis using a b by blast
    qed
    have "i < length envs" using i len(1) by simp
    then show ?thesis using v e z t by blast
  qed
  then show ?thesis using len(2) unfolding ste_def by blast
qed

theorem continuous_sleep_intervals_witness:
  "one_shot sample_config = 0 \<and> init_trans sample_config \<noteq> 0 \<and>
   main both_backends always_night sample_config (clock_at 1700000000 0) backends_ok
     sample_passes = (sample_trace, Running 0) \<and>
   length (sleeps sample_trace) = length sample_passes \<and>
   sleeps sample_trace = [100000, 100000, 5000000, 5000000] \<and>
   valid_timespec (clock_ts (clock_at 1700000000 0)) \<and>
   tv_sec (clock_ts (clock_at 1700000000 0)) + short_trans_len < 4294967296 \<and>
   valid_timespec (reading sample_passes 0) \<and> valid_timespec (reading sample_passes 1) \<and>
   valid_timespec (reading sample_passes 2) \<and> valid_timespec (reading sample_passes 3) \<and>
   elapsed_ns (clock_ts (clock_at 1700000000 0)) (reading sample_passes 0) \<le> 10000000000 \<and>
   elapsed_ns (clock_ts (clock_at 1700000000 0)) (reading sample_passes 1) \<le> 10000000000 \<and>
   sleeps sample_trace ! 1 = 100000 \<and>
   10000001000 \<le> elapsed_ns (clock_ts (clock_at 1700000000 0)) (reading sample_passes 2) \<and>
   sleeps sample_trace ! 3 = 5000000"
proof -
  have h1: "one_shot sample_config = 0" and h0: "init_trans sample_config \<noteq> 0"
    by (simp_all add: sample_config_def)
  have h2: "main both_backends always_night sample_config (clock_at 1700000000 0) backends_ok
     sample_passes = (sample_trace, Running 0)"
    by code_simp
  have s: "sleeps sample_trace = [100000, 100000, 5000000, 5000000]"
    by (simp add: sample_trace_def)
  have r: "reading sample_passes 0 = \<lparr>tv_sec = 1700000003, tv_nsec = 0\<rparr>"
    "reading sample_passes 1 = \<lparr>tv_sec = 1700000010, tv_nsec = 0\<rparr>"
    "reading sample_passes 2 = \<lparr>tv_sec = 1700000010, tv_nsec = 1000\<rparr>"
    "reading sample_passes 3 = \<lparr>tv_sec = 1700000005, tv_nsec = 0\<rparr>"
    "reading sample_passes (Suc 0) = \<lparr>tv_sec = 1700000010, tv_nsec = 0\<rparr>"
    by (simp_all add: reading_def sample_passes_def env_at_def clock_at_def)
  have j3: "j \<le> 3 \<longleftrightarrow> j = 0 \<or> j = 1 \<or> j = 2 \<or> j = 3" for j :: nat by auto
  have v0: "valid_timespec (clock_ts (clock_at 1700000000 0))"
    "tv_sec (clock_ts (clock_at 1700000000 0)) + short_trans_len < 4294967296"
    by (simp_all add: valid_timespec_def clock_at_def short_trans_len_def)
  have v: "\<forall>j\<le>3. valid_timespec (reading sample_passes j)"
    by (auto simp add: j3 r valid_timespec_def)
  have v1: "\<forall>j\<le>1. valid_timespec (reading sample_passes j)"
    using v by auto
  have e1: "\<forall>j\<le>1. elapsed_ns (clock_ts (clock_at 1700000000 0)) (reading sample_passes j)
      \<le> 10000000000"
  proof (intro allI impI)
    fix j :: nat
    assume "j \<le> 1"
    then have "j = 0 \<or> j = Suc 0" by auto
    then show "elapsed_ns (clock_ts (clock_at 1700000000 0)) (reading sample_passes j)
      \<le> 10000000000"
      by (auto simp add: r elapsed_ns_def clock_at_def)
  qed
  have e3: "\<exists>j\<le>3. 10000001000 \<le>
      elapsed_ns (clock_ts (clock_at 1700000000 0)) (reading sample_passes j)"
    by (rule exI [of _ 2]) (simp add: r elapsed_ns_def clock_at_def)
  note T = continuous_sleep_intervals [OF h1 h2]
  have l: "length (sleeps sample_trace) = length sample_passes"
    using T by simp
  have i1: "(1::nat) < length (sleeps sample_trace)" and i3: "(3::nat) < length (sleeps sample_trace)"
    by (simp_all add: s)
  have c1: "sleeps sample_trace ! 1 = 100000"
    using T [THEN conjunct2, rule_format, OF i1] h0 v0 v1 e1 by blast
  have c3: "sleeps sample_trace ! 3 = 5000000"
    using T [THEN conjunct2, rule_format, OF i3] v0 v e3 by blast
  have x: "valid_timespec (reading sample_passes 0)" "valid_timespec (reading sample_passes 1)"
    "valid_timespec (reading sample_passes 2)" "valid_timespec (reading sample_passes 3)"
    "elapsed_ns (clock_ts (clock_at 1700000000 0)) (reading sample_passes 0) \<le> 10000000000"
    "elapsed_ns (clock_ts (clock_at 1700000000 0)) (reading sample_passes 1) \<le> 10000000000"
    "10000001000 \<le> elapsed_ns (clock_ts (clock_at 1700000000 0)) (reading sample_passes 2)"
    by (simp_all add: r valid_timespec_def elapsed_ns_def clock_at_def)
  show ?thesis
    using h1 h0 h2 l s v0 x c1 c3 by blast
qed


section \<open>The blend\<close>

lemma calculate_temp_total:
  assumes "1000 \<le> D" "D \<le> 9999" "1000 \<le> N" "N \<le> 9999"
  shows "\<exists>t. calculate_temp el D N = Some t \<and> 999 \<le> t \<and> t \<le> 9999"
proof (cases "double_less el TRANSITION_LOW")
  case True
  then show ?thesis using assms by (simp add: calculate_temp_night)
next
  case nl: False
  show ?thesis
  proof (cases "double_less el TRANSITION_HIGH")
    case False
    then show ?thesis using nl assms by (simp add: calculate_temp_def)
  next
    case True
    with nl obtain e where e: "el = Finite e" by (cases el) simp_all
    have b: "TRANSITION_LOW \<le> e" "e \<le> TRANSITION_HIGH" using nl True e by simp_all
    obtain t where t: "calculate_temp (Finite e) D N = Some t"
      "spec_interpolation e D N - 1 / 500 - 1 < of_int t"
      "of_int t \<le> spec_interpolation e D N + 1 / 500"
      using calculate_temp_near_spec [OF b assms] by blast
    have "of_int 1000 \<le> spec_interpolation e D N \<and> spec_interpolation e D N \<le> of_int 9999"
      using b assms by (intro spec_interpolation_range) simp_all
    then have "1000 \<le> spec_interpolation e D N" "spec_interpolation e D N \<le> 9999"
      by simp_all
    with t have "(998 :: rat) < of_int t" "(of_int t :: rat) < 10000" by linarith+
    then have "(of_int 998 :: rat) < of_int t" "(of_int t :: rat) < of_int 10000" by simp_all
    then have "998 < t" "t < 10000" by (simp_all only: of_int_less_iff)
    then show ?thesis using t(1) e by simp
  qed
qed

lemma temps_in_range_iff:
  "temps_in_range cfg \<longleftrightarrow>
     1000 \<le> temp_day cfg \<and> temp_day cfg \<le> 9999 \<and>
     1000 \<le> temp_night cfg \<and> temp_night cfg \<le> 9999"
  by (auto simp add: temps_in_range_def MIN_TEMP_def MAX_TEMP_def)








section \<open>One-shot mode\<close>

text \<open>
  C9 (as stated: exactly one apply call in single-shot mode). When the clock reading fails,
  the one-shot branch exits with \<^verbatim>\<open>EXIT_FAILURE\<close> before any apply call.
\<close>

theorem one_shot_clock_failure_counterexample:
  "one_shot (sample_config\<lparr>one_shot := 1\<rparr>) \<noteq> 0 \<and>
   main both_backends always_night (sample_config\<lparr>one_shot := 1\<rparr>) clock_fails
     backends_ok [] = ([], Exit EXIT_FAILURE)"
  by code_simp

text \<open>
  C9 (amended). In single-shot mode with temperatures in range: if the clock reading fails
  the run ends with \<^verbatim>\<open>EXIT_FAILURE\<close> and no apply call; otherwise it makes exactly one
  apply call, with the mapper's output, and ends with \<^verbatim>\<open>EXIT_SUCCESS\<close> when the call
  succeeds and \<^verbatim>\<open>EXIT_FAILURE\<close> when it fails. The answers prepared for the passes of
  the loop are never used.
\<close>

theorem one_shot_single_apply:
  assumes "one_shot cfg \<noteq> 0" "temps_in_range cfg"
  shows "(clock_r c0 < 0 \<longrightarrow> main b se cfg c0 be envs = ([], Exit EXIT_FAILURE)) \<and>
         (\<not> clock_r c0 < 0 \<longrightarrow>
            (\<exists>temp calls r.
               calculate_temp (se (clock_ts c0) (lat cfg) (lon cfg)) (temp_day cfg)
                 (temp_night cfg) = Some temp \<and>
               adjust_temperature b be (screen_num cfg) (use_randr cfg) temp (gamma cfg) =
                 (r, calls) \<and>
               main b se cfg c0 be envs =
                 ([Apply temp calls r],
                  Exit (if r < 0 then EXIT_FAILURE else EXIT_SUCCESS))))"
proof -
  obtain temp where t: "calculate_temp (se (clock_ts c0) (lat cfg) (lon cfg)) (temp_day cfg)
      (temp_night cfg) = Some temp"
    using assms(2) calculate_temp_total [of "temp_day cfg" "temp_night cfg"]
    by (auto simp add: temps_in_range_iff)
  obtain r calls where a: "adjust_temperature b be (screen_num cfg) (use_randr cfg) temp
      (gamma cfg) = (r, calls)"
    by (cases "adjust_temperature b be (screen_num cfg) (use_randr cfg) temp (gamma cfg)")
  show ?thesis
    using assms(1) t a by (simp add: main_def one_shot_mode_def Let_def)
qed

theorem one_shot_single_apply_witness:
  "one_shot (sample_config\<lparr>one_shot := 1\<rparr>) \<noteq> 0 \<and>
   temps_in_range (sample_config\<lparr>one_shot := 1\<rparr>) \<and>
   \<not> clock_r (clock_at 3 0) < 0 \<and>
   main both_backends always_night (sample_config\<lparr>one_shot := 1\<rparr>) (clock_at 3 0)
     backends_ok [env_at 4 0 backends_ok] =
     ([Apply 3700 [RandrCheckExtension, RandrSetTemperature (- 1) 3700 (1, 1, 1)] 0],
      Exit EXIT_SUCCESS) \<and>
   clock_r clock_fails < 0 \<and>
   main both_backends always_night (sample_config\<lparr>one_shot := 1\<rparr>) clock_fails
     backends_ok [env_at 4 0 backends_ok] = ([], Exit EXIT_FAILURE)"
proof -
  have h: "one_shot (sample_config\<lparr>one_shot := 1\<rparr>) \<noteq> 0"
    "temps_in_range (sample_config\<lparr>one_shot := 1\<rparr>)"
    by (simp_all add: sample_config_def temps_in_range_iff)
  have c: "\<not> clock_r (clock_at 3 0) < 0" "clock_r clock_fails < 0"
    by (simp_all add: clock_at_def clock_fails_def)
  have s: "main both_backends always_night (sample_config\<lparr>one_shot := 1\<rparr>)
     (clock_at 3 0) backends_ok [env_at 4 0 backends_ok] =
     ([Apply 3700 [RandrCheckExtension, RandrSetTemperature (- 1) 3700 (1, 1, 1)] 0],
      Exit EXIT_SUCCESS)"
    by code_simp
  show ?thesis
    using h c s
      one_shot_single_apply [OF h, of clock_fails both_backends always_night backends_ok
        "[env_at 4 0 backends_ok]"]
      one_shot_single_apply [OF h, of "clock_at 3 0" both_backends always_night backends_ok
        "[env_at 4 0 backends_ok]"]
    by simp
qed

text \<open>
  C10. In single-shot mode the temperature given to the backend is the mapper's output for
  the elevation at the clock reading, whatever \<^verbatim>\<open>init_trans\<close> is; the apply call is the
  only event.
\<close>

theorem one_shot_no_ramp:
  assumes "one_shot cfg \<noteq> 0"
    and "main b se cfg c0 be envs = (evs, out)"
    and "Apply t calls r \<in> set evs"
  shows "calculate_temp (se (clock_ts c0) (lat cfg) (lon cfg)) (temp_day cfg)
           (temp_night cfg) = Some t \<and>
         evs = [Apply t calls r]"
  using assms
  by (auto simp add: main_def one_shot_mode_def Let_def
      split: if_splits option.splits prod.splits)

theorem one_shot_no_ramp_witness:
  "one_shot (sample_config\<lparr>one_shot := 1\<rparr>) \<noteq> 0 \<and>
   init_trans (sample_config\<lparr>one_shot := 1\<rparr>) = 1 \<and>
   main both_backends always_twilight (sample_config\<lparr>one_shot := 1\<rparr>) (clock_at 3 0)
     backends_ok [] =
     ([Apply 4600 [RandrCheckExtension, RandrSetTemperature (- 1) 4600 (1, 1, 1)] 0],
      Exit EXIT_SUCCESS) \<and>
   calculate_temp
     (always_twilight (clock_ts (clock_at 3 0)) (lat (sample_config\<lparr>one_shot := 1\<rparr>))
        (lon (sample_config\<lparr>one_shot := 1\<rparr>)))
     (temp_day (sample_config\<lparr>one_shot := 1\<rparr>))
     (temp_night (sample_config\<lparr>one_shot := 1\<rparr>)) = Some 4600"
proof -
  have h: "one_shot (sample_config\<lparr>one_shot := 1\<rparr>) \<noteq> 0"
    "init_trans (sample_config\<lparr>one_shot := 1\<rparr>) = 1"
    by (simp_all add: sample_config_def)
  have s: "main both_backends always_twilight (sample_config\<lparr>one_shot := 1\<rparr>)
     (clock_at 3 0) backends_ok [] =
     ([Apply 4600 [RandrCheckExtension, RandrSetTemperature (- 1) 4600 (1, 1, 1)] 0],
      Exit EXIT_SUCCESS)"
    by code_simp
  have m: "Apply 4600 [RandrCheckExtension, RandrSetTemperature (- 1) 4600 (1, 1, 1)] 0 \<in>
     set [Apply 4600 [RandrCheckExtension, RandrSetTemperature (- 1) 4600 (1, 1, 1)] 0]"
    by simp
  show ?thesis
    using h s one_shot_no_ramp [OF h(1) s m] by simp
qed

end
